theory Spec2Isabelle
  imports Complex_Main "HOL-Library.Sublist"
begin

section \<open>The data model of vastcap.go\<close>

text \<open>
  Go strings are byte sequences: \<open>string\<close>. The zero value of a Go string is \<open>[]\<close>,
  of a bool \<open>False\<close>, of a pointer, map or interface \<open>nil\<close> (here \<open>None\<close>, or \<open>[]\<close> for a map).
\<close>

text \<open>
  A \<open>float64\<close>. The program never computes with one: the encoder tests it against zero,
  refuses what is not a number, and prints it; the decoder stores what it reads. A finite
  value is given by its exact (rational) value; negative zero is not told apart from zero.
\<close>

datatype float64 = Finite rat | PosInf | NegInf | NaN

fun is_finite :: "float64 \<Rightarrow> bool" where
  "is_finite (Finite q) = True"
| "is_finite _ = False"

record VastCap =
  APIKey :: string

record apiError =
  ErrorId :: int
  ErrorCode :: string
  ErrorDescription :: string

record TaskBase =
  Type :: string
  Proxy :: string
  UserAgent :: string
  WebsiteKey :: string
  WebsiteURL :: string

text \<open>
  An embedded struct is a record extension: the fields of \<open>TaskBase\<close> are fields of the task
  (Go promotes them, in selectors and in the JSON encoding alike).
  Field names are global in a theory, so \<open>TurnstileTask.Invisible\<close> is \<open>TurnstileInvisible\<close>,
  \<open>taskSolution.UserAgent\<close> is \<open>SolutionUserAgent\<close>, and the fields of the anonymous response
  struct of the create-task methods are \<open>resp_TaskID\<close> and \<open>resp_Error\<close>.
\<close>

record HCaptchaTask = TaskBase +
  RqData :: string
  Invisible :: bool
  Enterprise :: bool

record RecaptchaTask = TaskBase +
  IsInvisible :: bool
  MinScore :: float64
  PageAction :: string

text \<open>
  The anonymous struct of \<open>FunCaptchaTask.Data\<close>. \<open>CustomCookies\<close> is a Go map, given by its
  entries in increasing key order, which is the order encoding/json writes them in; \<open>[]\<close> is
  the nil map and the empty map (the encoder treats both alike). No method writes to it.
\<close>

record FunCaptchaData =
  Blob :: string
  CustomCookies :: "(string \<times> string) list"

record FunCaptchaTask = TaskBase +
  Data :: FunCaptchaData

record TurnstileTask = TaskBase +
  TurnstileInvisible :: bool

record taskSolution =
  GRecaptchaResponse :: "string option"
  HCaptchaResponse :: "string option"
  TurnstileResponse :: "string option"
  Text :: "string option"
  Score :: "float64 option"
  SolutionUserAgent :: "string option"

record TaskResult =
  Status :: string
  Solution :: "taskSolution option"
  Error :: "apiError option"

record resp =
  resp_TaskID :: string
  resp_Error :: "apiError option"

definition zero_apiError :: apiError where
  "zero_apiError = \<lparr>ErrorId = 0, ErrorCode = [], ErrorDescription = []\<rparr>"

definition zero_taskSolution :: taskSolution where
  "zero_taskSolution = \<lparr>GRecaptchaResponse = None, HCaptchaResponse = None,
     TurnstileResponse = None, Text = None, Score = None, SolutionUserAgent = None\<rparr>"

definition zero_TaskResult :: TaskResult where
  "zero_TaskResult = \<lparr>Status = [], Solution = None, Error = None\<rparr>"

definition zero_resp :: resp where
  "zero_resp = \<lparr>resp_TaskID = [], resp_Error = None\<rparr>"

text \<open>
  The two URLs are package variables that no function of the package assigns to; they are
  constants here.
\<close>

definition createTaskURL :: string where
  "createTaskURL = ''https://captcha.vast.sh/api/solver/createTask''"

definition getTaskResultURL :: string where
  "getTaskResultURL = ''https://captcha.vast.sh/api/solver/getTaskResult''"

definition New :: "string \<Rightarrow> VastCap" where
  "New apiKey = \<lparr>APIKey = apiKey\<rparr>"


section \<open>JSON documents\<close>

text \<open>
  Request and response bodies are JSON documents, modelled as the syntax trees a JSON
  parser makes of them: an object is the list of its members in the order they are
  written, and a string is the byte sequence the string literal denotes, which is always
  valid UTF-8. How a tree is laid out in bytes (escapes, white space) is left out.

  The type of the numbers is a parameter. In a request every number is the literal that
  the encoder printed for a \<open>float64\<close>, and the tree holds that \<open>float64\<close>: the literal has
  the shortest digits that read back as the same value, and the digits themselves are not
  modelled. In a response a number is a \<open>literal\<close>: either one with neither fraction nor
  exponent, given by the integer it denotes, or any other, given by the \<open>float64\<close> it reads
  as (an infinity when it is out of range).
\<close>

datatype 'n json =
    JNull
  | JBool bool
  | JNumber 'n
  | JString string
  | JArray "'n json list"
  | JObject "(string \<times> 'n json) list"

datatype literal = IntegerLiteral int | OtherLiteral float64

type_synonym request_json = "float64 json"

type_synonym response_json = "literal json"

fun json_get :: "string \<Rightarrow> 'n json \<Rightarrow> 'n json option" where
  "json_get k (JObject kvs) = map_of kvs k"
| "json_get k _ = None"

fun json_keys :: "'n json \<Rightarrow> string list" where
  "json_keys (JObject kvs) = map fst kvs"
| "json_keys _ = []"


section \<open>Encoding: json.Marshal on the task structs\<close>

text \<open>
  A field tagged \<open>omitempty\<close> is left out when its value is empty, which encoding/json defines
  as: false, 0, a nil pointer, a nil interface value, and any array, slice, map or string of
  length zero. A struct value is never empty. A field without the option is always written.
\<close>

text \<open>
  A Go string is any byte sequence; the encoder writes it coerced to valid UTF-8, each byte
  that is not part of a well-formed encoding replaced by U+FFFD (bytes EF BF BD), as
  \<open>utf8.DecodeRuneInString\<close> tells them apart. \<open>rune_width s\<close> is the length of the
  well-formed encoding that \<open>s\<close> starts with, and 0 when it starts with none.
\<close>

definition byte_in :: "char \<Rightarrow> nat \<Rightarrow> nat \<Rightarrow> bool" where
  "byte_in c lo hi = (lo \<le> of_char c \<and> of_char c \<le> hi)"

definition rune_width :: "string \<Rightarrow> nat" where
  "rune_width s =
     (case s of
        [] \<Rightarrow> 0
      | a # cs \<Rightarrow>
          (let n = (of_char a :: nat) in
           if n < 0x80 then 1
           else if 0xC2 \<le> n \<and> n \<le> 0xDF then
             (case cs of
                b # _ \<Rightarrow> if byte_in b 0x80 0xBF then 2 else 0
              | _ \<Rightarrow> 0)
           else if 0xE0 \<le> n \<and> n \<le> 0xEF then
             (case cs of
                b # c # _ \<Rightarrow>
                  if byte_in b (if n = 0xE0 then 0xA0 else 0x80) (if n = 0xED then 0x9F else 0xBF)
                     \<and> byte_in c 0x80 0xBF
                  then 3 else 0
              | _ \<Rightarrow> 0)
           else if 0xF0 \<le> n \<and> n \<le> 0xF4 then
             (case cs of
                b # c # d # _ \<Rightarrow>
                  if byte_in b (if n = 0xF0 then 0x90 else 0x80) (if n = 0xF4 then 0x8F else 0xBF)
                     \<and> byte_in c 0x80 0xBF \<and> byte_in d 0x80 0xBF
                  then 4 else 0
              | _ \<Rightarrow> 0)
           else 0))"

fun utf8_coerce :: "string \<Rightarrow> string" where
  "utf8_coerce [] = []"
| "utf8_coerce (a # cs) =
     (case rune_width (a # cs) of
        0 \<Rightarrow> [CHR 0xEF, CHR 0xBF, CHR 0xBD] @ utf8_coerce cs
      | Suc n \<Rightarrow> a # take n cs @ utf8_coerce (drop n cs))"

declare utf8_coerce.simps [simp del]

definition valid_utf8 :: "string \<Rightarrow> bool" where
  "valid_utf8 s = (utf8_coerce s = s)"

definition marshal_string :: "string \<Rightarrow> 'n json" where
  "marshal_string s = JString (utf8_coerce s)"

definition string_field :: "string \<Rightarrow> string \<Rightarrow> (string \<times> request_json) list" where
  "string_field name s = [(name, marshal_string s)]"

definition string_omitempty :: "string \<Rightarrow> string \<Rightarrow> (string \<times> request_json) list" where
  "string_omitempty name s = (if s = [] then [] else [(name, marshal_string s)])"

definition bool_omitempty :: "string \<Rightarrow> bool \<Rightarrow> (string \<times> request_json) list" where
  "bool_omitempty name b = (if b then [(name, JBool True)] else [])"

text \<open>
  A finite float is printed, as the literal that reads back as the same value. NaN and the
  infinities make the whole Marshal call fail (\<open>UnsupportedValueError\<close>).
\<close>

fun encode_float64 :: "float64 \<Rightarrow> request_json option" where
  "encode_float64 (Finite q) = Some (JNumber (Finite q))"
| "encode_float64 _ = None"

definition float64_omitempty ::
  "string \<Rightarrow> float64 \<Rightarrow> (string \<times> request_json) list option" where
  "float64_omitempty name f =
     (if f = Finite 0 then Some []
      else case encode_float64 f of None \<Rightarrow> None | Some j \<Rightarrow> Some [(name, j)])"

definition map_omitempty ::
  "string \<Rightarrow> (string \<times> string) list \<Rightarrow> (string \<times> request_json) list" where
  "map_omitempty name m =
     (if m = [] then []
      else [(name, JObject (map (\<lambda>(k, v). (utf8_coerce k, marshal_string v)) m))])"

text \<open>The promoted fields of the embedded \<open>TaskBase\<close>, which come first in every task object.\<close>

definition TaskBase_fields :: "'a TaskBase_scheme \<Rightarrow> (string \<times> request_json) list" where
  "TaskBase_fields t =
     string_field ''type'' (Type t) @
     string_omitempty ''proxy'' (Proxy t) @
     string_omitempty ''userAgent'' (UserAgent t) @
     string_field ''websiteKey'' (WebsiteKey t) @
     string_field ''websiteURL'' (WebsiteURL t)"

definition marshal_TaskBase :: "TaskBase \<Rightarrow> request_json option" where
  "marshal_TaskBase t = Some (JObject (TaskBase_fields t))"

definition marshal_HCaptchaTask :: "HCaptchaTask \<Rightarrow> request_json option" where
  "marshal_HCaptchaTask t = Some (JObject (
     TaskBase_fields t @
     string_omitempty ''rqdata'' (RqData t) @
     bool_omitempty ''invisible'' (Invisible t) @
     bool_omitempty ''enterprise'' (Enterprise t)))"

definition marshal_RecaptchaTask :: "RecaptchaTask \<Rightarrow> request_json option" where
  "marshal_RecaptchaTask t =
     (case float64_omitempty ''minScore'' (MinScore t) of
        None \<Rightarrow> None
      | Some minScore \<Rightarrow> Some (JObject (
          TaskBase_fields t @
          bool_omitempty ''isInvisible'' (IsInvisible t) @
          minScore @
          string_omitempty ''pageAction'' (PageAction t))))"

text \<open>
  \<open>Data\<close> is tagged \<open>json:"data,omitempty"\<close>, but its type is a struct, and a struct value is
  never empty: the member is always written, as an object of the fields that are not empty.
\<close>

definition marshal_FunCaptchaData :: "FunCaptchaData \<Rightarrow> request_json" where
  "marshal_FunCaptchaData d = JObject (
     string_omitempty ''blob'' (Blob d) @
     map_omitempty ''custom_cookies'' (CustomCookies d))"

definition marshal_FunCaptchaTask :: "FunCaptchaTask \<Rightarrow> request_json option" where
  "marshal_FunCaptchaTask t = Some (JObject (
     TaskBase_fields t @
     [(''data'', marshal_FunCaptchaData (Data t))]))"

definition marshal_TurnstileTask :: "TurnstileTask \<Rightarrow> request_json option" where
  "marshal_TurnstileTask t = Some (JObject (
     TaskBase_fields t @
     bool_omitempty ''invisible'' (TurnstileInvisible t)))"

text \<open>
  \<open>BodyJSON(map[string]interface{}{"clientKey": c.APIKey, k: v})\<close>: a Go map is written with
  its keys sorted, and \<open>clientKey\<close> sorts before both \<open>task\<close> and \<open>taskId\<close>. The body is
  built when the request is, and there is none when Marshal fails.
\<close>

definition BodyJSON :: "string \<Rightarrow> string \<Rightarrow> request_json option \<Rightarrow> request_json option" where
  "BodyJSON apiKey k v =
     (case v of None \<Rightarrow> None
      | Some j \<Rightarrow> Some (JObject [(''clientKey'', marshal_string apiKey), (k, j)]))"


section \<open>Decoding: json.Unmarshal on the response structs\<close>

text \<open>
  An object member is stored into the field whose JSON name equals the member's key, or
  equals it under Unicode case folding. The field names of this program are ASCII letters,
  and no two of them fold to the same name, so a key selects a field exactly when the two
  fold alike. Folding maps an ASCII letter to its capital; the only other characters that
  fold to an ASCII letter are U+017F (long s, bytes C5 BF) and U+212A (Kelvin sign, bytes
  E2 84 AA). Members that select no field are skipped.
\<close>

definition toUpperASCII :: "char \<Rightarrow> char" where
  "toUpperASCII c =
     (let n = (of_char c :: nat) in if 97 \<le> n \<and> n \<le> 122 then char_of (n - 32) else c)"

fun foldName :: "string \<Rightarrow> string" where
  "foldName (a # b # c # cs) =
     (if [a, b, c] = [CHR 0xE2, CHR 0x84, CHR 0xAA] then CHR ''K'' # foldName cs
      else if [a, b] = [CHR 0xC5, CHR 0xBF] then CHR ''S'' # foldName (c # cs)
      else toUpperASCII a # foldName (b # c # cs))"
| "foldName [a, b] =
     (if [a, b] = [CHR 0xC5, CHR 0xBF] then [CHR ''S'']
      else [toUpperASCII a, toUpperASCII b])"
| "foldName [a] = [toUpperASCII a]"
| "foldName [] = []"

definition selects :: "string \<Rightarrow> string \<Rightarrow> bool" where
  "selects key name = (foldName key = foldName name)"

text \<open>
  Storing a JSON value into a field of each type; the second argument is what the field
  holds before, and \<open>None\<close> is an \<open>UnmarshalTypeError\<close>. \<open>null\<close> leaves a string or an int as
  it is and sets a pointer to nil. An \<open>int\<close> (64 bits wide) takes a literal without fraction
  and exponent that is in range. A \<open>float64\<close> takes any number literal that is in range; a
  literal without fraction and exponent reads as the \<open>float64\<close> nearest to its integer (ties
  to the even mantissa), which is the integer itself up to \<open>2 ^ 53\<close>. A value for a pointer
  to a struct is decoded into the struct the pointer already points to, or into a new zero
  struct when it is nil.
\<close>

fun bit_length :: "nat \<Rightarrow> nat" where
  "bit_length n = (if n = 0 then 0 else Suc (bit_length (n div 2)))"

declare bit_length.simps [simp del]

definition float64_of_integer :: "int \<Rightarrow> float64" where
  "float64_of_integer n =
     (let a = nat \<bar>n\<bar>;
          e = bit_length a - 53;
          m = a div 2 ^ e;
          r = a mod 2 ^ e;
          m = (if 2 ^ e < 2 * r \<or> (2 * r = 2 ^ e \<and> odd m) then m + 1 else m)
      in if 2 ^ 1024 \<le> m * 2 ^ e then (if n < 0 then NegInf else PosInf)
         else Finite (of_int (sgn n * int (m * 2 ^ e))))"

fun store_string :: "'n json \<Rightarrow> string \<Rightarrow> string option" where
  "store_string (JString s) old = Some s"
| "store_string JNull old = Some old"
| "store_string _ old = None"

fun store_int :: "response_json \<Rightarrow> int \<Rightarrow> int option" where
  "store_int (JNumber (IntegerLiteral n)) old =
     (if - (2 ^ 63) \<le> n \<and> n < 2 ^ 63 then Some n else None)"
| "store_int JNull old = Some old"
| "store_int _ old = None"

fun store_string_ptr :: "'n json \<Rightarrow> string option \<Rightarrow> string option option" where
  "store_string_ptr (JString s) old = Some (Some s)"
| "store_string_ptr JNull old = Some None"
| "store_string_ptr _ old = None"

fun store_float64_ptr :: "response_json \<Rightarrow> float64 option \<Rightarrow> float64 option option" where
  "store_float64_ptr (JNumber (IntegerLiteral n)) old =
     (if is_finite (float64_of_integer n) then Some (Some (float64_of_integer n)) else None)"
| "store_float64_ptr (JNumber (OtherLiteral f)) old =
     (if is_finite f then Some (Some f) else None)"
| "store_float64_ptr JNull old = Some None"
| "store_float64_ptr _ old = None"

fun apiError_members :: "(string \<times> response_json) list \<Rightarrow> apiError \<Rightarrow> apiError option" where
  "apiError_members [] e = Some e"
| "apiError_members ((k, v) # kvs) e =
     (if selects k ''errorId'' then
        (case store_int v (ErrorId e) of None \<Rightarrow> None
         | Some x \<Rightarrow> apiError_members kvs (e\<lparr>ErrorId := x\<rparr>))
      else if selects k ''errorCode'' then
        (case store_string v (ErrorCode e) of None \<Rightarrow> None
         | Some x \<Rightarrow> apiError_members kvs (e\<lparr>ErrorCode := x\<rparr>))
      else if selects k ''errorDescription'' then
        (case store_string v (ErrorDescription e) of None \<Rightarrow> None
         | Some x \<Rightarrow> apiError_members kvs (e\<lparr>ErrorDescription := x\<rparr>))
      else apiError_members kvs e)"

fun store_apiError_ptr :: "response_json \<Rightarrow> apiError option \<Rightarrow> apiError option option" where
  "store_apiError_ptr (JObject kvs) old =
     (case apiError_members kvs (case old of None \<Rightarrow> zero_apiError | Some e \<Rightarrow> e) of
        None \<Rightarrow> None | Some e \<Rightarrow> Some (Some e))"
| "store_apiError_ptr JNull old = Some None"
| "store_apiError_ptr _ old = None"

fun taskSolution_members :: "(string \<times> response_json) list \<Rightarrow> taskSolution \<Rightarrow> taskSolution option" where
  "taskSolution_members [] s = Some s"
| "taskSolution_members ((k, v) # kvs) s =
     (if selects k ''gRecaptchaResponse'' then
        (case store_string_ptr v (GRecaptchaResponse s) of None \<Rightarrow> None
         | Some x \<Rightarrow> taskSolution_members kvs (s\<lparr>GRecaptchaResponse := x\<rparr>))
      else if selects k ''hCaptchaResponse'' then
        (case store_string_ptr v (HCaptchaResponse s) of None \<Rightarrow> None
         | Some x \<Rightarrow> taskSolution_members kvs (s\<lparr>HCaptchaResponse := x\<rparr>))
      else if selects k ''turnstileResponse'' then
        (case store_string_ptr v (TurnstileResponse s) of None \<Rightarrow> None
         | Some x \<Rightarrow> taskSolution_members kvs (s\<lparr>TurnstileResponse := x\<rparr>))
      else if selects k ''text'' then
        (case store_string_ptr v (Text s) of None \<Rightarrow> None
         | Some x \<Rightarrow> taskSolution_members kvs (s\<lparr>Text := x\<rparr>))
      else if selects k ''score'' then
        (case store_float64_ptr v (Score s) of None \<Rightarrow> None
         | Some x \<Rightarrow> taskSolution_members kvs (s\<lparr>Score := x\<rparr>))
      else if selects k ''userAgent'' then
        (case store_string_ptr v (SolutionUserAgent s) of None \<Rightarrow> None
         | Some x \<Rightarrow> taskSolution_members kvs (s\<lparr>SolutionUserAgent := x\<rparr>))
      else taskSolution_members kvs s)"

fun store_taskSolution_ptr :: "response_json \<Rightarrow> taskSolution option \<Rightarrow> taskSolution option option" where
  "store_taskSolution_ptr (JObject kvs) old =
     (case taskSolution_members kvs (case old of None \<Rightarrow> zero_taskSolution | Some s \<Rightarrow> s) of
        None \<Rightarrow> None | Some s \<Rightarrow> Some (Some s))"
| "store_taskSolution_ptr JNull old = Some None"
| "store_taskSolution_ptr _ old = None"

fun resp_members :: "(string \<times> response_json) list \<Rightarrow> resp \<Rightarrow> resp option" where
  "resp_members [] r = Some r"
| "resp_members ((k, v) # kvs) r =
     (if selects k ''taskId'' then
        (case store_string v (resp_TaskID r) of None \<Rightarrow> None
         | Some x \<Rightarrow> resp_members kvs (r\<lparr>resp_TaskID := x\<rparr>))
      else if selects k ''error'' then
        (case store_apiError_ptr v (resp_Error r) of None \<Rightarrow> None
         | Some x \<Rightarrow> resp_members kvs (r\<lparr>resp_Error := x\<rparr>))
      else resp_members kvs r)"

fun TaskResult_members :: "(string \<times> response_json) list \<Rightarrow> TaskResult \<Rightarrow> TaskResult option" where
  "TaskResult_members [] r = Some r"
| "TaskResult_members ((k, v) # kvs) r =
     (if selects k ''status'' then
        (case store_string v (Status r) of None \<Rightarrow> None
         | Some x \<Rightarrow> TaskResult_members kvs (r\<lparr>Status := x\<rparr>))
      else if selects k ''solution'' then
        (case store_taskSolution_ptr v (Solution r) of None \<Rightarrow> None
         | Some x \<Rightarrow> TaskResult_members kvs (r\<lparr>Solution := x\<rparr>))
      else if selects k ''error'' then
        (case store_apiError_ptr v (Error r) of None \<Rightarrow> None
         | Some x \<Rightarrow> TaskResult_members kvs (r\<lparr>Error := x\<rparr>))
      else TaskResult_members kvs r)"

text \<open>
  \<open>json.Unmarshal(data, &resp)\<close> on a well-formed document: an object is stored member by
  member, \<open>null\<close> leaves the struct as it is, anything else is a type error.
\<close>

fun unmarshal_resp :: "response_json \<Rightarrow> resp \<Rightarrow> resp option" where
  "unmarshal_resp (JObject kvs) r = resp_members kvs r"
| "unmarshal_resp JNull r = Some r"
| "unmarshal_resp _ r = None"

fun unmarshal_TaskResult :: "response_json \<Rightarrow> TaskResult \<Rightarrow> TaskResult option" where
  "unmarshal_TaskResult (JObject kvs) r = TaskResult_members kvs r"
| "unmarshal_TaskResult JNull r = Some r"
| "unmarshal_TaskResult _ r = None"


section \<open>One round trip: the requests builder\<close>

text \<open>
  What the network and the remote service do with a request is a parameter: a function
  from the URL and the request body to what comes back, either no response at all or a
  status code with a body (\<open>None\<close> when the body is not a well-formed JSON document).
\<close>

datatype http_result = NoResponse | Response int "response_json option"

type_synonym round_trip = "string \<Rightarrow> request_json \<Rightarrow> http_result"

text \<open>
  The errors a method can return: the four stages at which \<open>Fetch\<close> can fail (building the
  request, the transport, the validator \<open>CheckStatus\<close>, the handler \<open>ToJSON\<close>), and the value
  of \<open>fmt.Errorf\<close>, which holds the formatted message and nothing else.
\<close>

datatype go_error =
    ErrRequest
  | ErrTransport
  | ErrValidator int
  | ErrHandler
  | Errorf string

text \<open>
  \<open>requests.URL(url).BodyJSON(body).ToJSON(&v).CheckStatus(http.StatusOK).Fetch(ctx)\<close>:
  build the request, send it, run the validator, and only then the handler. \<open>v0\<close> is the
  value of the variable the handler decodes into.
\<close>

definition Fetch ::
  "string \<Rightarrow> request_json option \<Rightarrow> (response_json \<Rightarrow> 'a \<Rightarrow> 'a option) \<Rightarrow> 'a \<Rightarrow> round_trip
     \<Rightarrow> go_error + 'a" where
  "Fetch url body unmarshal v0 rt =
     (case body of
        None \<Rightarrow> Inl ErrRequest
      | Some b \<Rightarrow>
          (case rt url b of
             NoResponse \<Rightarrow> Inl ErrTransport
           | Response status res \<Rightarrow>
               if status \<noteq> 200 then Inl (ErrValidator status)
               else (case res of
                       None \<Rightarrow> Inl ErrHandler
                     | Some j \<Rightarrow>
                         (case unmarshal j v0 of
                            None \<Rightarrow> Inl ErrHandler
                          | Some v \<Rightarrow> Inr v))))"


section \<open>The methods of the client\<close>

text \<open>
  \<open>fmt.Errorf("vastcap error: %s (%s)", resp.Error.ErrorDescription, resp.Error.ErrorCode)\<close>
\<close>

definition vastcap_error :: "apiError \<Rightarrow> go_error" where
  "vastcap_error e =
     Errorf (''vastcap error: '' @ ErrorDescription e @ '' ('' @ ErrorCode e @ '')'')"

text \<open>
  The five create-task methods share their text after the assignment to \<open>data.Type\<close>: the
  request body, then the three returns.
\<close>

definition createTask_return :: "go_error + resp \<Rightarrow> string \<times> go_error option" where
  "createTask_return r =
     (case r of
        Inl err \<Rightarrow> ([], Some err)
      | Inr resp \<Rightarrow>
          (case resp_Error resp of
             Some e \<Rightarrow> ([], Some (vastcap_error e))
           | None \<Rightarrow> (resp_TaskID resp, None)))"

definition HCaptcha_request :: "VastCap \<Rightarrow> HCaptchaTask \<Rightarrow> request_json option" where
  "HCaptcha_request c data =
     (let data = data\<lparr>Type := ''HCaptchaTask''\<rparr>
      in BodyJSON (APIKey c) ''task'' (marshal_HCaptchaTask data))"

definition HCaptcha :: "VastCap \<Rightarrow> HCaptchaTask \<Rightarrow> round_trip \<Rightarrow> string \<times> go_error option" where
  "HCaptcha c data rt =
     createTask_return (Fetch createTaskURL (HCaptcha_request c data) unmarshal_resp zero_resp rt)"

definition Recaptcha_request :: "VastCap \<Rightarrow> RecaptchaTask \<Rightarrow> bool \<Rightarrow> request_json option" where
  "Recaptcha_request c data v3 =
     (let data = data\<lparr>Type := ''RecaptchaV2Task''\<rparr>;
          data = (if v3 then data\<lparr>Type := ''RecaptchaV3Task''\<rparr> else data)
      in BodyJSON (APIKey c) ''task'' (marshal_RecaptchaTask data))"

definition Recaptcha ::
  "VastCap \<Rightarrow> RecaptchaTask \<Rightarrow> bool \<Rightarrow> round_trip \<Rightarrow> string \<times> go_error option" where
  "Recaptcha c data v3 rt =
     createTask_return
       (Fetch createTaskURL (Recaptcha_request c data v3) unmarshal_resp zero_resp rt)"

definition Turnstile_request :: "VastCap \<Rightarrow> TurnstileTask \<Rightarrow> request_json option" where
  "Turnstile_request c data =
     (let data = data\<lparr>Type := ''TurnstileTask''\<rparr>
      in BodyJSON (APIKey c) ''task'' (marshal_TurnstileTask data))"

definition Turnstile :: "VastCap \<Rightarrow> TurnstileTask \<Rightarrow> round_trip \<Rightarrow> string \<times> go_error option" where
  "Turnstile c data rt =
     createTask_return (Fetch createTaskURL (Turnstile_request c data) unmarshal_resp zero_resp rt)"

definition FunCaptcha_request :: "VastCap \<Rightarrow> FunCaptchaTask \<Rightarrow> request_json option" where
  "FunCaptcha_request c data =
     (let data = data\<lparr>Type := ''FunCaptchaTask''\<rparr>
      in BodyJSON (APIKey c) ''task'' (marshal_FunCaptchaTask data))"

definition FunCaptcha :: "VastCap \<Rightarrow> FunCaptchaTask \<Rightarrow> round_trip \<Rightarrow> string \<times> go_error option" where
  "FunCaptcha c data rt =
     createTask_return (Fetch createTaskURL (FunCaptcha_request c data) unmarshal_resp zero_resp rt)"

definition ImageToText_request :: "VastCap \<Rightarrow> TaskBase \<Rightarrow> request_json option" where
  "ImageToText_request c data =
     (let data = data\<lparr>Type := ''ImageToTextTask''\<rparr>
      in BodyJSON (APIKey c) ''task'' (marshal_TaskBase data))"

definition ImageToText :: "VastCap \<Rightarrow> TaskBase \<Rightarrow> round_trip \<Rightarrow> string \<times> go_error option" where
  "ImageToText c data rt =
     createTask_return (Fetch createTaskURL (ImageToText_request c data) unmarshal_resp zero_resp rt)"

definition GetResult_request :: "VastCap \<Rightarrow> string \<Rightarrow> request_json option" where
  "GetResult_request c taskID = BodyJSON (APIKey c) ''taskId'' (Some (marshal_string taskID))"

definition GetResult :: "VastCap \<Rightarrow> string \<Rightarrow> round_trip \<Rightarrow> TaskResult \<times> go_error option" where
  "GetResult c taskID rt =
     (case Fetch getTaskResultURL (GetResult_request c taskID)
             unmarshal_TaskResult zero_TaskResult rt of
        Inl err \<Rightarrow> (zero_TaskResult, Some err)
      | Inr resp \<Rightarrow>
          (case Error resp of
             Some e \<Rightarrow> (zero_TaskResult, Some (vastcap_error e))
           | None \<Rightarrow> (resp, None)))"


section \<open>Observing a request and a round trip\<close>

text \<open>The \<open>task.type\<close> member of a request body, when there is a body and it has one.\<close>

definition request_task_type :: "request_json option \<Rightarrow> request_json option" where
  "request_task_type body =
     (case body of None \<Rightarrow> None
      | Some b \<Rightarrow> (case json_get ''task'' b of None \<Rightarrow> None | Some t \<Rightarrow> json_get ''type'' t))"

text \<open>
  The Go constant \<open>0.7\<close> as a \<open>float64\<close>: the nearest value of the format, which the
  encoder prints as \<open>0.7\<close>.
\<close>

definition float64_0_7 :: float64 where
  "float64_0_7 = Finite (3152519739159347 / 4503599627370496)"

text \<open>
  Reading a request's task object back into a \<open>RecaptchaTask\<close>, by the same struct tags:
  \<open>json.Unmarshal\<close> on the task struct. A bool takes \<open>true\<close> or \<open>false\<close>, a \<open>float64\<close> a
  number in range, and \<open>null\<close> leaves either as it is.
\<close>

fun store_bool :: "'n json \<Rightarrow> bool \<Rightarrow> bool option" where
  "store_bool (JBool b) old = Some b"
| "store_bool JNull old = Some old"
| "store_bool _ old = None"

fun store_float64 :: "request_json \<Rightarrow> float64 \<Rightarrow> float64 option" where
  "store_float64 (JNumber f) old = (if is_finite f then Some f else None)"
| "store_float64 JNull old = Some old"
| "store_float64 _ old = None"

definition zero_RecaptchaTask :: RecaptchaTask where
  "zero_RecaptchaTask = \<lparr>Type = [], Proxy = [], UserAgent = [], WebsiteKey = [],
     WebsiteURL = [], IsInvisible = False, MinScore = Finite 0, PageAction = []\<rparr>"

fun RecaptchaTask_members :: "(string \<times> request_json) list \<Rightarrow> RecaptchaTask \<Rightarrow> RecaptchaTask option" where
  "RecaptchaTask_members [] t = Some t"
| "RecaptchaTask_members ((k, v) # kvs) t =
     (if selects k ''type'' then
        (case store_string v (Type t) of None \<Rightarrow> None
         | Some x \<Rightarrow> RecaptchaTask_members kvs (t\<lparr>Type := x\<rparr>))
      else if selects k ''proxy'' then
        (case store_string v (Proxy t) of None \<Rightarrow> None
         | Some x \<Rightarrow> RecaptchaTask_members kvs (t\<lparr>Proxy := x\<rparr>))
      else if selects k ''userAgent'' then
        (case store_string v (UserAgent t) of None \<Rightarrow> None
         | Some x \<Rightarrow> RecaptchaTask_members kvs (t\<lparr>UserAgent := x\<rparr>))
      else if selects k ''websiteKey'' then
        (case store_string v (WebsiteKey t) of None \<Rightarrow> None
         | Some x \<Rightarrow> RecaptchaTask_members kvs (t\<lparr>WebsiteKey := x\<rparr>))
      else if selects k ''websiteURL'' then
        (case store_string v (WebsiteURL t) of None \<Rightarrow> None
         | Some x \<Rightarrow> RecaptchaTask_members kvs (t\<lparr>WebsiteURL := x\<rparr>))
      else if selects k ''isInvisible'' then
        (case store_bool v (IsInvisible t) of None \<Rightarrow> None
         | Some x \<Rightarrow> RecaptchaTask_members kvs (t\<lparr>IsInvisible := x\<rparr>))
      else if selects k ''minScore'' then
        (case store_float64 v (MinScore t) of None \<Rightarrow> None
         | Some x \<Rightarrow> RecaptchaTask_members kvs (t\<lparr>MinScore := x\<rparr>))
      else if selects k ''pageAction'' then
        (case store_string v (PageAction t) of None \<Rightarrow> None
         | Some x \<Rightarrow> RecaptchaTask_members kvs (t\<lparr>PageAction := x\<rparr>))
      else RecaptchaTask_members kvs t)"

fun unmarshal_RecaptchaTask :: "request_json \<Rightarrow> RecaptchaTask \<Rightarrow> RecaptchaTask option" where
  "unmarshal_RecaptchaTask (JObject kvs) t = RecaptchaTask_members kvs t"
| "unmarshal_RecaptchaTask JNull t = Some t"
| "unmarshal_RecaptchaTask _ t = None"

text \<open>
  \<open>answers rt url request res\<close>: the request was built, and the round trip on it comes
  back with \<open>res\<close>. \<open>canned res\<close> is the endpoint that answers every request with \<open>res\<close>.
\<close>

definition answers ::
  "round_trip \<Rightarrow> string \<Rightarrow> request_json option \<Rightarrow> http_result \<Rightarrow> bool" where
  "answers rt url request res = (case request of None \<Rightarrow> False | Some b \<Rightarrow> rt url b = res)"

definition canned :: "http_result \<Rightarrow> round_trip" where
  "canned res = (\<lambda>url body. res)"

text \<open>
  \<open>error_response j e\<close>: the body \<open>j\<close> decodes into the response struct of the create-task
  methods, and \<open>e\<close> is the error object it leaves there; \<open>failed_result\<close> is the same for the
  \<open>TaskResult\<close> that \<open>GetResult\<close> decodes into.
\<close>

definition error_response :: "response_json \<Rightarrow> apiError \<Rightarrow> bool" where
  "error_response j e =
     (case unmarshal_resp j zero_resp of None \<Rightarrow> False | Some r \<Rightarrow> resp_Error r = Some e)"

definition failed_result :: "response_json \<Rightarrow> apiError \<Rightarrow> bool" where
  "failed_result j e =
     (case unmarshal_TaskResult j zero_TaskResult of
        None \<Rightarrow> False | Some r \<Rightarrow> Error r = Some e)"

text \<open>The text of an error made by \<open>fmt.Errorf\<close> contains \<open>s\<close>.\<close>

fun message_contains :: "go_error option \<Rightarrow> string \<Rightarrow> bool" where
  "message_contains (Some (Errorf msg)) s = sublist s msg"
| "message_contains _ s = False"

text \<open>Response bodies: \<open>{"taskId": id}\<close> and \<open>{"error": {"errorId": n, "errorCode": code, "errorDescription": desc}}\<close>.\<close>

definition taskId_body :: "string \<Rightarrow> response_json" where
  "taskId_body taskID = JObject [(''taskId'', JString taskID)]"

definition error_body :: "int \<Rightarrow> string \<Rightarrow> string \<Rightarrow> response_json" where
  "error_body n code desc = JObject [(''error'', JObject [
     (''errorId'', JNumber (IntegerLiteral n)),
     (''errorCode'', JString code),
     (''errorDescription'', JString desc)])]"

text \<open>Tasks with the two required fields set and nothing else.\<close>

definition example_TaskBase :: TaskBase where
  "example_TaskBase = \<lparr>Type = [], Proxy = [], UserAgent = [], WebsiteKey = ''site-key'',
     WebsiteURL = ''https://example.com''\<rparr>"

definition example_HCaptchaTask :: HCaptchaTask where
  "example_HCaptchaTask = \<lparr>Type = [], Proxy = [], UserAgent = [], WebsiteKey = ''site-key'',
     WebsiteURL = ''https://example.com'', RqData = [], Invisible = False, Enterprise = False\<rparr>"

definition example_RecaptchaTask :: RecaptchaTask where
  "example_RecaptchaTask = \<lparr>Type = [], Proxy = [], UserAgent = [], WebsiteKey = ''site-key'',
     WebsiteURL = ''https://example.com'', IsInvisible = False, MinScore = Finite 0,
     PageAction = []\<rparr>"

definition example_TurnstileTask :: TurnstileTask where
  "example_TurnstileTask = \<lparr>Type = [], Proxy = [], UserAgent = [], WebsiteKey = ''site-key'',
     WebsiteURL = ''https://example.com'', TurnstileInvisible = False\<rparr>"

definition example_FunCaptchaTask :: FunCaptchaTask where
  "example_FunCaptchaTask = \<lparr>Type = [], Proxy = [], UserAgent = [], WebsiteKey = ''site-key'',
     WebsiteURL = ''https://example.com'', Data = \<lparr>Blob = [], CustomCookies = []\<rparr>\<rparr>"

text \<open>The body \<open>{"status": "failed", "error": {...}}\<close> of a failed task.\<close>

definition failed_body :: "int \<Rightarrow> string \<Rightarrow> string \<Rightarrow> response_json" where
  "failed_body n code desc = JObject [(''status'', JString ''failed''), (''error'', JObject [
     (''errorId'', JNumber (IntegerLiteral n)),
     (''errorCode'', JString code),
     (''errorDescription'', JString desc)])]"


section \<open>The methods on a store\<close>

text \<open>
  For what a call does to the variables of its caller, the methods once more, with the
  variables they touch held in a store: a list of cells, a variable's address being its
  index. The receiver \<open>c\<close> is a pointer (\<open>None\<close> is nil) to a \<open>VastCap\<close> in the store. The
  argument is passed by value, as Go passes every argument: the parameter \<open>data\<close> (or \<open>taskID\<close>)
  is a new variable of the callee, which starts as a copy of what the caller passed, and the
  assignment to \<open>data.Type\<close> is a write to that variable. The response variable \<open>resp\<close> never
  leaves the method and is not kept in the store. The first component of the result is \<open>None\<close>
  when the call panics (a nil or dangling receiver).
\<close>

datatype cell =
    ClientCell VastCap
  | HCaptchaCell HCaptchaTask
  | RecaptchaCell RecaptchaTask
  | TurnstileCell TurnstileTask
  | FunCaptchaCell FunCaptchaTask
  | TaskBaseCell TaskBase
  | StringCell string

type_synonym store = "cell list"

definition load :: "store \<Rightarrow> nat \<Rightarrow> cell option" where
  "load s a = (if a < length s then Some (s ! a) else None)"

definition alloc :: "cell \<Rightarrow> store \<Rightarrow> nat \<times> store" where
  "alloc v s = (length s, s @ [v])"

definition assign :: "nat \<Rightarrow> (cell \<Rightarrow> cell) \<Rightarrow> store \<Rightarrow> store" where
  "assign a f s = (if a < length s then s[a := f (s ! a)] else s)"

definition deref_client :: "nat option \<Rightarrow> store \<Rightarrow> VastCap option" where
  "deref_client c s =
     (case c of None \<Rightarrow> None
      | Some p \<Rightarrow> (case load s p of Some (ClientCell v) \<Rightarrow> Some v | _ \<Rightarrow> None))"

text \<open>The assignment \<open>data.Type = ty\<close> on the cell that holds \<open>data\<close>.\<close>

fun set_Type :: "string \<Rightarrow> cell \<Rightarrow> cell" where
  "set_Type ty (HCaptchaCell t) = HCaptchaCell (t\<lparr>Type := ty\<rparr>)"
| "set_Type ty (RecaptchaCell t) = RecaptchaCell (t\<lparr>Type := ty\<rparr>)"
| "set_Type ty (TurnstileCell t) = TurnstileCell (t\<lparr>Type := ty\<rparr>)"
| "set_Type ty (FunCaptchaCell t) = FunCaptchaCell (t\<lparr>Type := ty\<rparr>)"
| "set_Type ty (TaskBaseCell t) = TaskBaseCell (t\<lparr>Type := ty\<rparr>)"
| "set_Type ty v = v"

definition HCaptcha_call ::
  "nat option \<Rightarrow> HCaptchaTask \<Rightarrow> round_trip \<Rightarrow> store
     \<Rightarrow> (string \<times> go_error option) option \<times> store" where
  "HCaptcha_call c arg rt s =
     (let (data, s) = alloc (HCaptchaCell arg) s;
          s = assign data (set_Type ''HCaptchaTask'') s
      in case (deref_client c s, load s data) of
           (Some cl, Some (HCaptchaCell t)) \<Rightarrow>
             (Some (createTask_return (Fetch createTaskURL
                (BodyJSON (APIKey cl) ''task'' (marshal_HCaptchaTask t))
                unmarshal_resp zero_resp rt)), s)
         | _ \<Rightarrow> (None, s))"

definition Recaptcha_call ::
  "nat option \<Rightarrow> RecaptchaTask \<Rightarrow> bool \<Rightarrow> round_trip \<Rightarrow> store
     \<Rightarrow> (string \<times> go_error option) option \<times> store" where
  "Recaptcha_call c arg v3 rt s =
     (let (data, s) = alloc (RecaptchaCell arg) s;
          s = assign data (set_Type ''RecaptchaV2Task'') s;
          s = (if v3 then assign data (set_Type ''RecaptchaV3Task'') s else s)
      in case (deref_client c s, load s data) of
           (Some cl, Some (RecaptchaCell t)) \<Rightarrow>
             (Some (createTask_return (Fetch createTaskURL
                (BodyJSON (APIKey cl) ''task'' (marshal_RecaptchaTask t))
                unmarshal_resp zero_resp rt)), s)
         | _ \<Rightarrow> (None, s))"

definition Turnstile_call ::
  "nat option \<Rightarrow> TurnstileTask \<Rightarrow> round_trip \<Rightarrow> store
     \<Rightarrow> (string \<times> go_error option) option \<times> store" where
  "Turnstile_call c arg rt s =
     (let (data, s) = alloc (TurnstileCell arg) s;
          s = assign data (set_Type ''TurnstileTask'') s
      in case (deref_client c s, load s data) of
           (Some cl, Some (TurnstileCell t)) \<Rightarrow>
             (Some (createTask_return (Fetch createTaskURL
                (BodyJSON (APIKey cl) ''task'' (marshal_TurnstileTask t))
                unmarshal_resp zero_resp rt)), s)
         | _ \<Rightarrow> (None, s))"

definition FunCaptcha_call ::
  "nat option \<Rightarrow> FunCaptchaTask \<Rightarrow> round_trip \<Rightarrow> store
     \<Rightarrow> (string \<times> go_error option) option \<times> store" where
  "FunCaptcha_call c arg rt s =
     (let (data, s) = alloc (FunCaptchaCell arg) s;
          s = assign data (set_Type ''FunCaptchaTask'') s
      in case (deref_client c s, load s data) of
           (Some cl, Some (FunCaptchaCell t)) \<Rightarrow>
             (Some (createTask_return (Fetch createTaskURL
                (BodyJSON (APIKey cl) ''task'' (marshal_FunCaptchaTask t))
                unmarshal_resp zero_resp rt)), s)
         | _ \<Rightarrow> (None, s))"

definition ImageToText_call ::
  "nat option \<Rightarrow> TaskBase \<Rightarrow> round_trip \<Rightarrow> store
     \<Rightarrow> (string \<times> go_error option) option \<times> store" where
  "ImageToText_call c arg rt s =
     (let (data, s) = alloc (TaskBaseCell arg) s;
          s = assign data (set_Type ''ImageToTextTask'') s
      in case (deref_client c s, load s data) of
           (Some cl, Some (TaskBaseCell t)) \<Rightarrow>
             (Some (createTask_return (Fetch createTaskURL
                (BodyJSON (APIKey cl) ''task'' (marshal_TaskBase t))
                unmarshal_resp zero_resp rt)), s)
         | _ \<Rightarrow> (None, s))"

definition GetResult_call ::
  "nat option \<Rightarrow> string \<Rightarrow> round_trip \<Rightarrow> store
     \<Rightarrow> (TaskResult \<times> go_error option) option \<times> store" where
  "GetResult_call c arg rt s =
     (let (taskID, s) = alloc (StringCell arg) s
      in case (deref_client c s, load s taskID) of
           (Some cl, Some (StringCell t)) \<Rightarrow>
             (Some (case Fetch getTaskResultURL
                       (BodyJSON (APIKey cl) ''taskId'' (Some (marshal_string t)))
                       unmarshal_TaskResult zero_TaskResult rt of
                  Inl err \<Rightarrow> (zero_TaskResult, Some err)
                | Inr resp \<Rightarrow>
                    (case Error resp of
                       Some e \<Rightarrow> (zero_TaskResult, Some (vastcap_error e))
                     | None \<Rightarrow> (resp, None))), s)
         | _ \<Rightarrow> (None, s))"

text \<open>A store for examples: the client at address 0, the caller's task at address 1.\<close>

definition example_store :: store where
  "example_store = [ClientCell (New ''key''), HCaptchaCell (example_HCaptchaTask\<lparr>Type := ''mine''\<rparr>)]"


section \<open>Properties of the requests\<close>

lemmas marshal_defs =
  marshal_TaskBase_def marshal_HCaptchaTask_def marshal_RecaptchaTask_def
  marshal_FunCaptchaTask_def marshal_FunCaptchaData_def marshal_TurnstileTask_def
  TaskBase_fields_def string_field_def string_omitempty_def bool_omitempty_def
  float64_omitempty_def map_omitempty_def BodyJSON_def marshal_string_def

text \<open>ASCII text is valid UTF-8, and the encoder writes it as it is.\<close>

lemma utf8_coerce_ascii: "list_all (\<lambda>c. of_char c < (128::nat)) s \<Longrightarrow> utf8_coerce s = s"
  by (induction s) (simp_all add: utf8_coerce.simps rune_width_def)

lemma utf8_coerce_constants:
  "utf8_coerce ''HCaptchaTask'' = ''HCaptchaTask''"
  "utf8_coerce ''RecaptchaV2Task'' = ''RecaptchaV2Task''"
  "utf8_coerce ''RecaptchaV3Task'' = ''RecaptchaV3Task''"
  "utf8_coerce ''TurnstileTask'' = ''TurnstileTask''"
  "utf8_coerce ''FunCaptchaTask'' = ''FunCaptchaTask''"
  "utf8_coerce ''ImageToTextTask'' = ''ImageToTextTask''"
  "utf8_coerce ''key'' = ''key''"
  "utf8_coerce ''site-key'' = ''site-key''"
  "utf8_coerce ''https://example.com'' = ''https://example.com''"
  "utf8_coerce ''login'' = ''login''"
  "utf8_coerce ''abc123'' = ''abc123''"
  "utf8_coerce ''Mozilla/5.0'' = ''Mozilla/5.0''"
  by (simp_all add: utf8_coerce_ascii)

text \<open>A byte that starts no well-formed encoding is written as U+FFFD.\<close>

lemma utf8_coerce_FF: "utf8_coerce [CHR 0xFF] = [CHR 0xEF, CHR 0xBF, CHR 0xBD]"
  by (simp add: utf8_coerce.simps rune_width_def)

lemmas request_defs =
  HCaptcha_request_def Recaptcha_request_def Turnstile_request_def FunCaptcha_request_def
  ImageToText_request_def GetResult_request_def

text \<open>
  C1. The \<open>task.type\<close> member of every create-task request is the method's own discriminator:
  \<open>HCaptchaTask\<close>, \<open>RecaptchaV3Task\<close> or \<open>RecaptchaV2Task\<close> by the flag, \<open>TurnstileTask\<close>,
  \<open>FunCaptchaTask\<close>, \<open>ImageToTextTask\<close>. What the caller put into \<open>Type\<close> has no effect on the
  request. (\<open>Recaptcha\<close> has a request body exactly when \<open>MinScore\<close> is a finite number.)
\<close>

theorem task_type_is_the_discriminator:
  "request_task_type (HCaptcha_request c h) = Some (JString ''HCaptchaTask'')
   \<and> request_task_type (Recaptcha_request c r v3flag) =
       (if is_finite (MinScore r)
        then Some (JString (if v3flag then ''RecaptchaV3Task'' else ''RecaptchaV2Task''))
        else None)
   \<and> request_task_type (Turnstile_request c t) = Some (JString ''TurnstileTask'')
   \<and> request_task_type (FunCaptcha_request c f) = Some (JString ''FunCaptchaTask'')
   \<and> request_task_type (ImageToText_request c i) = Some (JString ''ImageToTextTask'')
   \<and> HCaptcha_request c (h\<lparr>Type := ty\<rparr>) = HCaptcha_request c h
   \<and> Recaptcha_request c (r\<lparr>Type := ty\<rparr>) v3flag = Recaptcha_request c r v3flag
   \<and> Turnstile_request c (t\<lparr>Type := ty\<rparr>) = Turnstile_request c t
   \<and> FunCaptcha_request c (f\<lparr>Type := ty\<rparr>) = FunCaptcha_request c f
   \<and> ImageToText_request c (i\<lparr>Type := ty\<rparr>) = ImageToText_request c i"
proof -
  have recaptcha: "request_task_type (Recaptcha_request c r v3flag) =
       (if is_finite (MinScore r)
        then Some (JString (if v3flag then ''RecaptchaV3Task'' else ''RecaptchaV2Task''))
        else None)"
    by (cases "MinScore r")
       (simp_all add: request_task_type_def request_defs marshal_defs Let_def
          utf8_coerce_constants)
  show ?thesis
    by (simp add: recaptcha)
       (simp add: request_task_type_def request_defs marshal_defs Let_def utf8_coerce_constants)
qed

lemma Recaptcha_request_None:
  "Recaptcha_request c r v3flag = None \<longleftrightarrow> \<not> is_finite (MinScore r)"
  by (cases "MinScore r") (simp_all add: request_defs marshal_defs Let_def)

text \<open>
  C7, as the code has it. Every request body is an object of exactly two members, in this
  order: \<open>clientKey\<close>, holding the key the client was constructed with as the encoder writes
  a string (the key itself when it is valid UTF-8, and with U+FFFD for every byte that is
  not part of a well-formed encoding otherwise), and \<open>task\<close> for the five create-task
  methods, \<open>taskId\<close> for \<open>GetResult\<close>. The task is the object of the fields its struct tags
  name, \<open>type\<close> first with the method's constant, each optional field only when it is set,
  and \<open>data\<close> always for a \<open>FunCaptchaTask\<close>; the task id is written like the key.
\<close>

theorem request_has_clientKey_and_task:
  "APIKey (New k) = k
   \<and> (valid_utf8 (APIKey c) \<longrightarrow> utf8_coerce (APIKey c) = APIKey c)
   \<and> map_option json_keys (HCaptcha_request c h) = Some [''clientKey'', ''task'']
   \<and> Option.bind (HCaptcha_request c h) (json_get ''clientKey'') =
         Some (JString (utf8_coerce (APIKey c)))
   \<and> Option.bind (HCaptcha_request c h) (json_get ''task'') = Some (JObject (
          [(''type'', JString ''HCaptchaTask'')] @
          (if Proxy h = [] then [] else [(''proxy'', JString (utf8_coerce (Proxy h)))]) @
          (if UserAgent h = [] then [] else [(''userAgent'', JString (utf8_coerce (UserAgent h)))]) @
          [(''websiteKey'', JString (utf8_coerce (WebsiteKey h))),
           (''websiteURL'', JString (utf8_coerce (WebsiteURL h)))] @
          (if RqData h = [] then [] else [(''rqdata'', JString (utf8_coerce (RqData h)))]) @
          (if Invisible h then [(''invisible'', JBool True)] else []) @
          (if Enterprise h then [(''enterprise'', JBool True)] else [])))
   \<and> map_option json_keys (Recaptcha_request c r v3flag) =
         (if is_finite (MinScore r) then Some [''clientKey'', ''task''] else None)
   \<and> Option.bind (Recaptcha_request c r v3flag) (json_get ''clientKey'') =
         (if is_finite (MinScore r) then Some (JString (utf8_coerce (APIKey c))) else None)
   \<and> Option.bind (Recaptcha_request c r v3flag) (json_get ''task'') =
         (if is_finite (MinScore r) then Some (JObject (
          [(''type'', JString (if v3flag then ''RecaptchaV3Task'' else ''RecaptchaV2Task''))] @
          (if Proxy r = [] then [] else [(''proxy'', JString (utf8_coerce (Proxy r)))]) @
          (if UserAgent r = [] then [] else [(''userAgent'', JString (utf8_coerce (UserAgent r)))]) @
          [(''websiteKey'', JString (utf8_coerce (WebsiteKey r))),
           (''websiteURL'', JString (utf8_coerce (WebsiteURL r)))] @
          (if IsInvisible r then [(''isInvisible'', JBool True)] else []) @
          (if MinScore r = Finite 0 then [] else [(''minScore'', JNumber (MinScore r))]) @
          (if PageAction r = [] then [] else [(''pageAction'', JString (utf8_coerce (PageAction r)))])))
          else None)
   \<and> map_option json_keys (Turnstile_request c t) = Some [''clientKey'', ''task'']
   \<and> Option.bind (Turnstile_request c t) (json_get ''clientKey'') =
         Some (JString (utf8_coerce (APIKey c)))
   \<and> Option.bind (Turnstile_request c t) (json_get ''task'') = Some (JObject (
          [(''type'', JString ''TurnstileTask'')] @
          (if Proxy t = [] then [] else [(''proxy'', JString (utf8_coerce (Proxy t)))]) @
          (if UserAgent t = [] then [] else [(''userAgent'', JString (utf8_coerce (UserAgent t)))]) @
          [(''websiteKey'', JString (utf8_coerce (WebsiteKey t))),
           (''websiteURL'', JString (utf8_coerce (WebsiteURL t)))] @
          (if TurnstileInvisible t then [(''invisible'', JBool True)] else [])))
   \<and> map_option json_keys (FunCaptcha_request c f) = Some [''clientKey'', ''task'']
   \<and> Option.bind (FunCaptcha_request c f) (json_get ''clientKey'') =
         Some (JString (utf8_coerce (APIKey c)))
   \<and> Option.bind (FunCaptcha_request c f) (json_get ''task'') = Some (JObject (
          [(''type'', JString ''FunCaptchaTask'')] @
          (if Proxy f = [] then [] else [(''proxy'', JString (utf8_coerce (Proxy f)))]) @
          (if UserAgent f = [] then [] else [(''userAgent'', JString (utf8_coerce (UserAgent f)))]) @
          [(''websiteKey'', JString (utf8_coerce (WebsiteKey f))),
           (''websiteURL'', JString (utf8_coerce (WebsiteURL f)))] @
          [(''data'', JObject (
             (if Blob (Data f) = [] then []
              else [(''blob'', JString (utf8_coerce (Blob (Data f))))]) @
             (if CustomCookies (Data f) = [] then []
              else [(''custom_cookies'', JObject (map (\<lambda>(k, v). (utf8_coerce k, JString (utf8_coerce v)))
                      (CustomCookies (Data f))))])))]))
   \<and> map_option json_keys (ImageToText_request c i) = Some [''clientKey'', ''task'']
   \<and> Option.bind (ImageToText_request c i) (json_get ''clientKey'') =
         Some (JString (utf8_coerce (APIKey c)))
   \<and> Option.bind (ImageToText_request c i) (json_get ''task'') = Some (JObject (
          [(''type'', JString ''ImageToTextTask'')] @
          (if Proxy i = [] then [] else [(''proxy'', JString (utf8_coerce (Proxy i)))]) @
          (if UserAgent i = [] then [] else [(''userAgent'', JString (utf8_coerce (UserAgent i)))]) @
          [(''websiteKey'', JString (utf8_coerce (WebsiteKey i))),
           (''websiteURL'', JString (utf8_coerce (WebsiteURL i)))]))
   \<and> map_option json_keys (GetResult_request c taskID) = Some [''clientKey'', ''taskId'']
   \<and> Option.bind (GetResult_request c taskID) (json_get ''clientKey'') =
         Some (JString (utf8_coerce (APIKey c)))
   \<and> Option.bind (GetResult_request c taskID) (json_get ''taskId'') =
         Some (JString (utf8_coerce taskID))"
proof -
  have recaptcha:
    "map_option json_keys (Recaptcha_request c r v3flag) =
         (if is_finite (MinScore r) then Some [''clientKey'', ''task''] else None)"
    "Option.bind (Recaptcha_request c r v3flag) (json_get ''clientKey'') =
         (if is_finite (MinScore r) then Some (JString (utf8_coerce (APIKey c))) else None)"
    "Option.bind (Recaptcha_request c r v3flag) (json_get ''task'') =
         (if is_finite (MinScore r) then Some (JObject (
          [(''type'', JString (if v3flag then ''RecaptchaV3Task'' else ''RecaptchaV2Task''))] @
          (if Proxy r = [] then [] else [(''proxy'', JString (utf8_coerce (Proxy r)))]) @
          (if UserAgent r = [] then [] else [(''userAgent'', JString (utf8_coerce (UserAgent r)))]) @
          [(''websiteKey'', JString (utf8_coerce (WebsiteKey r))),
           (''websiteURL'', JString (utf8_coerce (WebsiteURL r)))] @
          (if IsInvisible r then [(''isInvisible'', JBool True)] else []) @
          (if MinScore r = Finite 0 then [] else [(''minScore'', JNumber (MinScore r))]) @
          (if PageAction r = [] then [] else [(''pageAction'', JString (utf8_coerce (PageAction r)))])))
          else None)"
    by (cases "MinScore r"; cases v3flag;
        simp add: Recaptcha_request_def marshal_defs Let_def utf8_coerce_constants)+
  have others:
    "map_option json_keys (HCaptcha_request c h) = Some [''clientKey'', ''task'']"
    "Option.bind (HCaptcha_request c h) (json_get ''clientKey'') =
         Some (JString (utf8_coerce (APIKey c)))"
    "Option.bind (HCaptcha_request c h) (json_get ''task'') = Some (JObject (
          [(''type'', JString ''HCaptchaTask'')] @
          (if Proxy h = [] then [] else [(''proxy'', JString (utf8_coerce (Proxy h)))]) @
          (if UserAgent h = [] then [] else [(''userAgent'', JString (utf8_coerce (UserAgent h)))]) @
          [(''websiteKey'', JString (utf8_coerce (WebsiteKey h))),
           (''websiteURL'', JString (utf8_coerce (WebsiteURL h)))] @
          (if RqData h = [] then [] else [(''rqdata'', JString (utf8_coerce (RqData h)))]) @
          (if Invisible h then [(''invisible'', JBool True)] else []) @
          (if Enterprise h then [(''enterprise'', JBool True)] else [])))"
    "map_option json_keys (Turnstile_request c t) = Some [''clientKey'', ''task'']"
    "Option.bind (Turnstile_request c t) (json_get ''clientKey'') =
         Some (JString (utf8_coerce (APIKey c)))"
    "Option.bind (Turnstile_request c t) (json_get ''task'') = Some (JObject (
          [(''type'', JString ''TurnstileTask'')] @
          (if Proxy t = [] then [] else [(''proxy'', JString (utf8_coerce (Proxy t)))]) @
          (if UserAgent t = [] then [] else [(''userAgent'', JString (utf8_coerce (UserAgent t)))]) @
          [(''websiteKey'', JString (utf8_coerce (WebsiteKey t))),
           (''websiteURL'', JString (utf8_coerce (WebsiteURL t)))] @
          (if TurnstileInvisible t then [(''invisible'', JBool True)] else [])))"
    "map_option json_keys (FunCaptcha_request c f) = Some [''clientKey'', ''task'']"
    "Option.bind (FunCaptcha_request c f) (json_get ''clientKey'') =
         Some (JString (utf8_coerce (APIKey c)))"
    "Option.bind (FunCaptcha_request c f) (json_get ''task'') = Some (JObject (
          [(''type'', JString ''FunCaptchaTask'')] @
          (if Proxy f = [] then [] else [(''proxy'', JString (utf8_coerce (Proxy f)))]) @
          (if UserAgent f = [] then [] else [(''userAgent'', JString (utf8_coerce (UserAgent f)))]) @
          [(''websiteKey'', JString (utf8_coerce (WebsiteKey f))),
           (''websiteURL'', JString (utf8_coerce (WebsiteURL f)))] @
          [(''data'', JObject (
             (if Blob (Data f) = [] then []
              else [(''blob'', JString (utf8_coerce (Blob (Data f))))]) @
             (if CustomCookies (Data f) = [] then []
              else [(''custom_cookies'', JObject (map (\<lambda>(k, v). (utf8_coerce k, JString (utf8_coerce v)))
                      (CustomCookies (Data f))))])))]))"
    "map_option json_keys (ImageToText_request c i) = Some [''clientKey'', ''task'']"
    "Option.bind (ImageToText_request c i) (json_get ''clientKey'') =
         Some (JString (utf8_coerce (APIKey c)))"
    "Option.bind (ImageToText_request c i) (json_get ''task'') = Some (JObject (
          [(''type'', JString ''ImageToTextTask'')] @
          (if Proxy i = [] then [] else [(''proxy'', JString (utf8_coerce (Proxy i)))]) @
          (if UserAgent i = [] then [] else [(''userAgent'', JString (utf8_coerce (UserAgent i)))]) @
          [(''websiteKey'', JString (utf8_coerce (WebsiteKey i))),
           (''websiteURL'', JString (utf8_coerce (WebsiteURL i)))]))"
    "map_option json_keys (GetResult_request c taskID) = Some [''clientKey'', ''taskId'']"
    "Option.bind (GetResult_request c taskID) (json_get ''clientKey'') =
         Some (JString (utf8_coerce (APIKey c)))"
    "Option.bind (GetResult_request c taskID) (json_get ''taskId'') =
         Some (JString (utf8_coerce taskID))"
    by (simp_all add: request_defs marshal_defs utf8_coerce_constants Let_def)
  show ?thesis
    by (simp only: recaptcha others New_def VastCap.simps valid_utf8_def simp_thms)
qed

theorem request_has_clientKey_and_task_witness:
  "valid_utf8 ''key''
   \<and> Option.bind (HCaptcha_request (New ''key'') example_HCaptchaTask) (json_get ''clientKey'')
       = Some (JString ''key'')
   \<and> map_option json_keys (HCaptcha_request (New ''key'') example_HCaptchaTask)
       = Some [''clientKey'', ''task'']
   \<and> Option.bind (HCaptcha_request (New ''key'') example_HCaptchaTask) (json_get ''task'')
       = Some (JObject [(''type'', JString ''HCaptchaTask''),
           (''websiteKey'', JString ''site-key''),
           (''websiteURL'', JString ''https://example.com'')])"
  using request_has_clientKey_and_task [where c = "New ''key''" and h = example_HCaptchaTask]
  by (simp add: New_def example_HCaptchaTask_def valid_utf8_def utf8_coerce_constants)

text \<open>
  C7 as stated fails where the key is not valid UTF-8: for the client made by \<open>New\<close> from
  the one-byte key FF, \<open>clientKey\<close> holds U+FFFD, which is not the key the client stores.
\<close>

theorem clientKey_of_invalid_key:
  "Option.bind (HCaptcha_request (New [CHR 0xFF]) example_HCaptchaTask) (json_get ''clientKey'')
     = Some (JString [CHR 0xEF, CHR 0xBF, CHR 0xBD])
   \<and> Option.bind (GetResult_request (New [CHR 0xFF]) ''abc123'') (json_get ''clientKey'')
     = Some (JString [CHR 0xEF, CHR 0xBF, CHR 0xBD])
   \<and> APIKey (New [CHR 0xFF]) \<noteq> [CHR 0xEF, CHR 0xBF, CHR 0xBD]"
  by (simp add: HCaptcha_request_def GetResult_request_def BodyJSON_def
        marshal_HCaptchaTask_def marshal_string_def New_def utf8_coerce_FF Let_def)

text \<open>
  C3, at the input where it fails. A \<open>FunCaptchaTask\<close> with nothing set but the two required
  fields is sent with a \<open>data\<close> member that holds the empty object: the tag on \<open>Data\<close> asks
  for \<open>omitempty\<close>, which never leaves out a value of struct type.
\<close>

theorem FunCaptcha_unset_data_is_written:
  "FunCaptcha_request (New ''key'')
     \<lparr>Type = [], Proxy = [], UserAgent = [], WebsiteKey = ''site-key'',
      WebsiteURL = ''https://example.com'', Data = \<lparr>Blob = [], CustomCookies = []\<rparr>\<rparr>
   = Some (JObject [(''clientKey'', JString ''key''),
        (''task'', JObject [(''type'', JString ''FunCaptchaTask''),
           (''websiteKey'', JString ''site-key''),
           (''websiteURL'', JString ''https://example.com''),
           (''data'', JObject [])])])"
  by (simp add: New_def request_defs marshal_defs utf8_coerce_constants)

text \<open>
  The other optional fields are left out when unset: with every optional field at its zero
  value, a task object holds \<open>type\<close>, \<open>websiteKey\<close> and \<open>websiteURL\<close> and nothing else,
  except for the \<open>data\<close> member of a \<open>FunCaptchaTask\<close>; and inside \<open>data\<close>, an unset \<open>blob\<close>
  and unset cookies are left out.
\<close>

lemma unset_optional_fields_are_left_out:
  "marshal_TaskBase \<lparr>Type = ty, Proxy = [], UserAgent = [], WebsiteKey = wk, WebsiteURL = wu\<rparr>
     = Some (JObject [(''type'', marshal_string ty), (''websiteKey'', marshal_string wk),
          (''websiteURL'', marshal_string wu)])"
  "marshal_HCaptchaTask \<lparr>Type = ty, Proxy = [], UserAgent = [], WebsiteKey = wk,
      WebsiteURL = wu, RqData = [], Invisible = False, Enterprise = False\<rparr>
     = Some (JObject [(''type'', marshal_string ty), (''websiteKey'', marshal_string wk),
          (''websiteURL'', marshal_string wu)])"
  "marshal_RecaptchaTask \<lparr>Type = ty, Proxy = [], UserAgent = [], WebsiteKey = wk,
      WebsiteURL = wu, IsInvisible = False, MinScore = Finite 0, PageAction = []\<rparr>
     = Some (JObject [(''type'', marshal_string ty), (''websiteKey'', marshal_string wk),
          (''websiteURL'', marshal_string wu)])"
  "marshal_TurnstileTask \<lparr>Type = ty, Proxy = [], UserAgent = [], WebsiteKey = wk,
      WebsiteURL = wu, TurnstileInvisible = False\<rparr>
     = Some (JObject [(''type'', marshal_string ty), (''websiteKey'', marshal_string wk),
          (''websiteURL'', marshal_string wu)])"
  "marshal_FunCaptchaTask \<lparr>Type = ty, Proxy = [], UserAgent = [], WebsiteKey = wk,
      WebsiteURL = wu, Data = \<lparr>Blob = [], CustomCookies = []\<rparr>\<rparr>
     = Some (JObject [(''type'', marshal_string ty), (''websiteKey'', marshal_string wk),
          (''websiteURL'', marshal_string wu), (''data'', JObject [])])"
  by (simp_all add: marshal_TaskBase_def marshal_HCaptchaTask_def marshal_RecaptchaTask_def
        marshal_FunCaptchaTask_def marshal_FunCaptchaData_def marshal_TurnstileTask_def
        TaskBase_fields_def string_field_def string_omitempty_def bool_omitempty_def
        float64_omitempty_def map_omitempty_def)

lemma selects_RecaptchaTask:
  "selects ''type'' ''type''"
  "\<not> selects ''proxy'' ''type''"
  "selects ''proxy'' ''proxy''"
  "\<not> selects ''userAgent'' ''type''"
  "\<not> selects ''userAgent'' ''proxy''"
  "selects ''userAgent'' ''userAgent''"
  "\<not> selects ''websiteKey'' ''type''"
  "\<not> selects ''websiteKey'' ''proxy''"
  "\<not> selects ''websiteKey'' ''userAgent''"
  "selects ''websiteKey'' ''websiteKey''"
  "\<not> selects ''websiteURL'' ''type''"
  "\<not> selects ''websiteURL'' ''proxy''"
  "\<not> selects ''websiteURL'' ''userAgent''"
  "\<not> selects ''websiteURL'' ''websiteKey''"
  "selects ''websiteURL'' ''websiteURL''"
  "\<not> selects ''isInvisible'' ''type''"
  "\<not> selects ''isInvisible'' ''proxy''"
  "\<not> selects ''isInvisible'' ''userAgent''"
  "\<not> selects ''isInvisible'' ''websiteKey''"
  "\<not> selects ''isInvisible'' ''websiteURL''"
  "selects ''isInvisible'' ''isInvisible''"
  "\<not> selects ''minScore'' ''type''"
  "\<not> selects ''minScore'' ''proxy''"
  "\<not> selects ''minScore'' ''userAgent''"
  "\<not> selects ''minScore'' ''websiteKey''"
  "\<not> selects ''minScore'' ''websiteURL''"
  "\<not> selects ''minScore'' ''isInvisible''"
  "selects ''minScore'' ''minScore''"
  "\<not> selects ''pageAction'' ''type''"
  "\<not> selects ''pageAction'' ''proxy''"
  "\<not> selects ''pageAction'' ''userAgent''"
  "\<not> selects ''pageAction'' ''websiteKey''"
  "\<not> selects ''pageAction'' ''websiteURL''"
  "\<not> selects ''pageAction'' ''isInvisible''"
  "\<not> selects ''pageAction'' ''minScore''"
  "selects ''pageAction'' ''pageAction''"
  by (simp_all add: selects_def toUpperASCII_def char_of_def)

lemma encode_float64_0_7: "encode_float64 float64_0_7 = Some (JNumber float64_0_7)"
  by (simp add: float64_0_7_def)

lemma float64_0_7_not_zero: "float64_0_7 \<noteq> Finite 0"
  by (simp add: float64_0_7_def)

lemma float64_0_7_finite: "is_finite float64_0_7"
  by (simp add: float64_0_7_def)

text \<open>\<open>float64_0_7\<close> is within half a unit in the last place of \<open>7/10\<close>.\<close>

lemma float64_0_7_is_nearest:
  "float64_0_7 = Finite q \<Longrightarrow> \<bar>q - 7 / 10\<bar> \<le> 1 / 2 ^ 54"
  by (auto simp add: float64_0_7_def)

text \<open>
  C8. A \<open>RecaptchaTask\<close> with \<open>MinScore\<close> 0.7 and \<open>PageAction\<close> \<open>login\<close> (and \<open>IsInvisible\<close>
  unset), submitted with the v3 flag, whatever its \<open>TaskBase\<close> fields hold: the task object of
  the request has \<open>type\<close> = \<open>RecaptchaV3Task\<close>, the fields of \<open>TaskBase\<close> (\<open>proxy\<close> and
  \<open>userAgent\<close> when they are set), \<open>minScore\<close> and \<open>pageAction\<close>, and no other member.
  Decoding it gives a task with \<open>Type\<close> = \<open>RecaptchaV3Task\<close>, \<open>MinScore\<close> 0.7, \<open>PageAction\<close>
  \<open>login\<close>, \<open>IsInvisible\<close> unset, and the \<open>TaskBase\<close> strings as the encoder wrote them: the
  very task that was submitted, with \<open>Type\<close> set, when those strings are valid UTF-8.
\<close>

theorem recaptcha_v3_round_trip:
  fixes c :: VastCap and ty px ua wk wu :: string
  defines "data \<equiv> \<lparr>Type = ty, Proxy = px, UserAgent = ua, WebsiteKey = wk, WebsiteURL = wu,
                    IsInvisible = False, MinScore = float64_0_7, PageAction = ''login''\<rparr>"
  defines "task \<equiv> JObject (
             [(''type'', JString ''RecaptchaV3Task'')] @
             (if px = [] then [] else [(''proxy'', JString (utf8_coerce px))]) @
             (if ua = [] then [] else [(''userAgent'', JString (utf8_coerce ua))]) @
             [(''websiteKey'', JString (utf8_coerce wk)),
              (''websiteURL'', JString (utf8_coerce wu)),
              (''minScore'', JNumber float64_0_7), (''pageAction'', JString ''login'')])"
  shows "Recaptcha_request c data True =
           Some (JObject [(''clientKey'', JString (utf8_coerce (APIKey c))), (''task'', task)])
         \<and> unmarshal_RecaptchaTask task zero_RecaptchaTask =
             Some (data\<lparr>Type := ''RecaptchaV3Task'', Proxy := utf8_coerce px,
                    UserAgent := utf8_coerce ua, WebsiteKey := utf8_coerce wk,
                    WebsiteURL := utf8_coerce wu\<rparr>)
         \<and> (valid_utf8 px \<and> valid_utf8 ua \<and> valid_utf8 wk \<and> valid_utf8 wu \<longrightarrow>
              unmarshal_RecaptchaTask task zero_RecaptchaTask =
                Some (data\<lparr>Type := ''RecaptchaV3Task''\<rparr>))"
proof -
  have request: "Recaptcha_request c data True =
           Some (JObject [(''clientKey'', JString (utf8_coerce (APIKey c))), (''task'', task)])"
    unfolding data_def task_def
    by (simp add: request_defs marshal_defs encode_float64_0_7 float64_0_7_not_zero
          utf8_coerce_constants)
  have decoded: "unmarshal_RecaptchaTask task zero_RecaptchaTask =
             Some (data\<lparr>Type := ''RecaptchaV3Task'', Proxy := utf8_coerce px,
                    UserAgent := utf8_coerce ua, WebsiteKey := utf8_coerce wk,
                    WebsiteURL := utf8_coerce wu\<rparr>)"
    unfolding data_def task_def
    by (simp add: selects_RecaptchaTask zero_RecaptchaTask_def float64_0_7_finite
          utf8_coerce.simps(1))
  have valid: "unmarshal_RecaptchaTask task zero_RecaptchaTask =
                Some (data\<lparr>Type := ''RecaptchaV3Task''\<rparr>)"
    if "valid_utf8 px \<and> valid_utf8 ua \<and> valid_utf8 wk \<and> valid_utf8 wu"
    using that decoded unfolding data_def by (simp add: valid_utf8_def)
  show ?thesis
    using request decoded valid by blast
qed

text \<open>
  For the task of the claim as it is written, \<open>RecaptchaTask{MinScore: 0.7, PageAction: "login"}\<close>:
  the request's task object, and what decoding it gives.
\<close>

theorem recaptcha_v3_round_trip_witness:
  "Recaptcha_request (New ''key'')
     \<lparr>Type = [], Proxy = [], UserAgent = [], WebsiteKey = [], WebsiteURL = [],
      IsInvisible = False, MinScore = float64_0_7, PageAction = ''login''\<rparr> True
   = Some (JObject [(''clientKey'', JString ''key''),
       (''task'', JObject [(''type'', JString ''RecaptchaV3Task''),
          (''websiteKey'', JString []), (''websiteURL'', JString []),
          (''minScore'', JNumber float64_0_7), (''pageAction'', JString ''login'')])])
   \<and> unmarshal_RecaptchaTask
        (JObject [(''type'', JString ''RecaptchaV3Task''),
          (''websiteKey'', JString []), (''websiteURL'', JString []),
          (''minScore'', JNumber float64_0_7), (''pageAction'', JString ''login'')])
        zero_RecaptchaTask
     = Some \<lparr>Type = ''RecaptchaV3Task'', Proxy = [], UserAgent = [], WebsiteKey = [],
         WebsiteURL = [], IsInvisible = False, MinScore = float64_0_7, PageAction = ''login''\<rparr>"
  using recaptcha_v3_round_trip [where c = "New ''key''" and ty = "[]" and px = "[]"
      and ua = "[]" and wk = "[]" and wu = "[]"]
  by (simp add: New_def valid_utf8_def utf8_coerce_constants utf8_coerce.simps(1))


section \<open>Properties of the responses\<close>

lemma selects_response:
  "selects ''taskId'' ''taskId''"
  "\<not> selects ''error'' ''taskId''" "selects ''error'' ''error''"
  "selects ''errorId'' ''errorId''"
  "\<not> selects ''errorCode'' ''errorId''" "selects ''errorCode'' ''errorCode''"
  "\<not> selects ''errorDescription'' ''errorId''"
  "\<not> selects ''errorDescription'' ''errorCode''"
  "selects ''errorDescription'' ''errorDescription''"
  "selects ''status'' ''status''"
  "\<not> selects ''solution'' ''status''" "selects ''solution'' ''solution''"
  "\<not> selects ''error'' ''status''" "\<not> selects ''error'' ''solution''"
  "\<not> selects ''hCaptchaResponse'' ''gRecaptchaResponse''"
  "selects ''hCaptchaResponse'' ''hCaptchaResponse''"
  by (simp_all add: selects_def toUpperASCII_def char_of_def)

lemma unmarshal_taskId_body:
  "unmarshal_resp (taskId_body tid) zero_resp = Some \<lparr>resp_TaskID = tid, resp_Error = None\<rparr>"
  by (simp add: taskId_body_def zero_resp_def selects_response)

lemma unmarshal_error_body:
  "- (2 ^ 63) \<le> n \<Longrightarrow> n < 2 ^ 63 \<Longrightarrow>
   unmarshal_resp (error_body n code desc) zero_resp =
     Some \<lparr>resp_TaskID = [],
           resp_Error = Some \<lparr>ErrorId = n, ErrorCode = code, ErrorDescription = desc\<rparr>\<rparr>"
  by (simp add: error_body_def zero_resp_def zero_apiError_def selects_response)

lemma unmarshal_failed_body:
  "- (2 ^ 63) \<le> n \<Longrightarrow> n < 2 ^ 63 \<Longrightarrow>
   unmarshal_TaskResult (failed_body n code desc) zero_TaskResult =
     Some \<lparr>Status = ''failed'', Solution = None,
           Error = Some \<lparr>ErrorId = n, ErrorCode = code, ErrorDescription = desc\<rparr>\<rparr>"
  by (simp add: failed_body_def zero_TaskResult_def zero_apiError_def selects_response)

lemma error_response_error_body:
  "error_response (error_body 1 code desc)
     \<lparr>ErrorId = 1, ErrorCode = code, ErrorDescription = desc\<rparr>"
  "error_response (error_body 2 code desc)
     \<lparr>ErrorId = 2, ErrorCode = code, ErrorDescription = desc\<rparr>"
  by (simp_all add: error_response_def unmarshal_error_body)

lemma failed_result_failed_body:
  "failed_result (failed_body 1 code desc)
     \<lparr>ErrorId = 1, ErrorCode = code, ErrorDescription = desc\<rparr>"
  "failed_result (failed_body 2 code desc)
     \<lparr>ErrorId = 2, ErrorCode = code, ErrorDescription = desc\<rparr>"
  by (simp_all add: failed_result_def unmarshal_failed_body)

lemma Fetch_200:
  "answers rt url req (Response 200 (Some j)) \<Longrightarrow>
   Fetch url req unmarshal v0 rt =
     (case unmarshal j v0 of None \<Rightarrow> Inl ErrHandler | Some v \<Rightarrow> Inr v)"
  by (cases req) (simp_all add: answers_def Fetch_def)

lemma Fetch_not_200:
  "answers rt url req (Response st body) \<Longrightarrow> st \<noteq> 200 \<Longrightarrow>
   Fetch url req unmarshal v0 rt = Inl (ErrValidator st)"
  by (cases req) (simp_all add: answers_def Fetch_def)

lemma createTask_taskId:
  "answers rt url req (Response 200 (Some (taskId_body tid))) \<Longrightarrow>
   createTask_return (Fetch url req unmarshal_resp zero_resp rt) = (tid, None)"
  by (simp add: Fetch_200 unmarshal_taskId_body createTask_return_def)

lemma createTask_error:
  "answers rt url req (Response 200 (Some j)) \<Longrightarrow> error_response j e \<Longrightarrow>
   createTask_return (Fetch url req unmarshal_resp zero_resp rt) = ([], Some (vastcap_error e))"
  by (auto simp add: Fetch_200 error_response_def createTask_return_def split: option.splits)

lemma createTask_not_200:
  "answers rt url req (Response st body) \<Longrightarrow> st \<noteq> 200 \<Longrightarrow>
   createTask_return (Fetch url req unmarshal_resp zero_resp rt) = ([], Some (ErrValidator st))"
  by (simp add: Fetch_not_200 createTask_return_def)

lemma GetResult_failed:
  "answers rt getTaskResultURL (GetResult_request c taskID) (Response 200 (Some j)) \<Longrightarrow>
   failed_result j e \<Longrightarrow>
   GetResult c taskID rt = (zero_TaskResult, Some (vastcap_error e))"
  by (auto simp add: GetResult_def Fetch_200 failed_result_def split: option.splits)

lemma GetResult_not_200:
  "answers rt getTaskResultURL (GetResult_request c taskID) (Response st body) \<Longrightarrow>
   st \<noteq> 200 \<Longrightarrow>
   GetResult c taskID rt = (zero_TaskResult, Some (ErrValidator st))"
  by (simp add: GetResult_def Fetch_not_200)

lemma vastcap_error_contains:
  "message_contains (Some (vastcap_error e)) (ErrorDescription e)"
  "message_contains (Some (vastcap_error e)) (ErrorCode e)"
proof -
  show "message_contains (Some (vastcap_error e)) (ErrorDescription e)"
    unfolding vastcap_error_def message_contains.simps by (rule sublist_appendI)
  have "sublist (ErrorCode e)
          ((''vastcap error: '' @ ErrorDescription e @ '' ('') @ ErrorCode e @ '')'')"
    by (rule sublist_appendI)
  then show "message_contains (Some (vastcap_error e)) (ErrorCode e)"
    unfolding vastcap_error_def message_contains.simps by (simp only: append_assoc)
qed

lemmas method_defs = HCaptcha_def Recaptcha_def Turnstile_def FunCaptcha_def ImageToText_def

text \<open>Every example task has a request body, and a canned endpoint answers it.\<close>

lemma example_requests:
  "HCaptcha_request (New ''key'') example_HCaptchaTask \<noteq> None"
  "Recaptcha_request (New ''key'') example_RecaptchaTask True \<noteq> None"
  "Turnstile_request (New ''key'') example_TurnstileTask \<noteq> None"
  "FunCaptcha_request (New ''key'') example_FunCaptchaTask \<noteq> None"
  "ImageToText_request (New ''key'') example_TaskBase \<noteq> None"
  "GetResult_request (New ''key'') ''abc123'' \<noteq> None"
  by (simp_all add: Recaptcha_request_None example_RecaptchaTask_def)
     (simp_all add: request_defs BodyJSON_def marshal_TaskBase_def marshal_HCaptchaTask_def
        marshal_FunCaptchaTask_def marshal_TurnstileTask_def)

lemma answers_canned: "req \<noteq> None \<Longrightarrow> answers (canned res) url req res"
  by (cases req) (simp_all add: answers_def canned_def)

lemmas canned_examples = example_requests [THEN answers_canned]

text \<open>
  C4. Each create-task method, when its request is answered with status 200 and the body
  \<open>{"taskId": "abc123"}\<close>, returns \<open>abc123\<close> and no error; when it is answered with status
  200 and a body whose error object has the code \<open>KEY_INVALID\<close> and the description \<open>bad key\<close>,
  it returns the empty string and an error whose text contains both.
\<close>

theorem create_task_returns_taskId_or_error:
  "(answers rt createTaskURL (HCaptcha_request c h) (Response 200 (Some (taskId_body ''abc123'')))
      \<longrightarrow> HCaptcha c h rt = (''abc123'', None))
   \<and> (answers rt createTaskURL (HCaptcha_request c h) (Response 200 (Some j))
        \<and> error_response j e \<and> ErrorCode e = ''KEY_INVALID'' \<and> ErrorDescription e = ''bad key''
      \<longrightarrow> fst (HCaptcha c h rt) = [] \<and> message_contains (snd (HCaptcha c h rt)) ''bad key''
          \<and> message_contains (snd (HCaptcha c h rt)) ''KEY_INVALID'')
   \<and> (answers rt createTaskURL (Recaptcha_request c r v3flag) (Response 200 (Some (taskId_body ''abc123'')))
      \<longrightarrow> Recaptcha c r v3flag rt = (''abc123'', None))
   \<and> (answers rt createTaskURL (Recaptcha_request c r v3flag) (Response 200 (Some j))
        \<and> error_response j e \<and> ErrorCode e = ''KEY_INVALID'' \<and> ErrorDescription e = ''bad key''
      \<longrightarrow> fst (Recaptcha c r v3flag rt) = [] \<and> message_contains (snd (Recaptcha c r v3flag rt)) ''bad key''
          \<and> message_contains (snd (Recaptcha c r v3flag rt)) ''KEY_INVALID'')
   \<and> (answers rt createTaskURL (Turnstile_request c t) (Response 200 (Some (taskId_body ''abc123'')))
      \<longrightarrow> Turnstile c t rt = (''abc123'', None))
   \<and> (answers rt createTaskURL (Turnstile_request c t) (Response 200 (Some j))
        \<and> error_response j e \<and> ErrorCode e = ''KEY_INVALID'' \<and> ErrorDescription e = ''bad key''
      \<longrightarrow> fst (Turnstile c t rt) = [] \<and> message_contains (snd (Turnstile c t rt)) ''bad key''
          \<and> message_contains (snd (Turnstile c t rt)) ''KEY_INVALID'')
   \<and> (answers rt createTaskURL (FunCaptcha_request c f) (Response 200 (Some (taskId_body ''abc123'')))
      \<longrightarrow> FunCaptcha c f rt = (''abc123'', None))
   \<and> (answers rt createTaskURL (FunCaptcha_request c f) (Response 200 (Some j))
        \<and> error_response j e \<and> ErrorCode e = ''KEY_INVALID'' \<and> ErrorDescription e = ''bad key''
      \<longrightarrow> fst (FunCaptcha c f rt) = [] \<and> message_contains (snd (FunCaptcha c f rt)) ''bad key''
          \<and> message_contains (snd (FunCaptcha c f rt)) ''KEY_INVALID'')
   \<and> (answers rt createTaskURL (ImageToText_request c i) (Response 200 (Some (taskId_body ''abc123'')))
      \<longrightarrow> ImageToText c i rt = (''abc123'', None))
   \<and> (answers rt createTaskURL (ImageToText_request c i) (Response 200 (Some j))
        \<and> error_response j e \<and> ErrorCode e = ''KEY_INVALID'' \<and> ErrorDescription e = ''bad key''
      \<longrightarrow> fst (ImageToText c i rt) = [] \<and> message_contains (snd (ImageToText c i rt)) ''bad key''
          \<and> message_contains (snd (ImageToText c i rt)) ''KEY_INVALID'')"
  using vastcap_error_contains [of e]
  by (auto simp add: method_defs createTask_taskId createTask_error)

theorem create_task_returns_taskId_or_error_witness:
  "HCaptcha (New ''key'') example_HCaptchaTask (canned (Response 200 (Some (taskId_body ''abc123'')))) = (''abc123'', None)
   \<and> message_contains (snd (HCaptcha (New ''key'') example_HCaptchaTask (canned (Response 200 (Some (error_body 1 ''KEY_INVALID'' ''bad key'')))))) ''bad key''
   \<and> message_contains (snd (HCaptcha (New ''key'') example_HCaptchaTask (canned (Response 200 (Some (error_body 1 ''KEY_INVALID'' ''bad key'')))))) ''KEY_INVALID''
   \<and> Recaptcha (New ''key'') example_RecaptchaTask True (canned (Response 200 (Some (taskId_body ''abc123'')))) = (''abc123'', None)
   \<and> message_contains (snd (Recaptcha (New ''key'') example_RecaptchaTask True (canned (Response 200 (Some (error_body 1 ''KEY_INVALID'' ''bad key'')))))) ''bad key''
   \<and> message_contains (snd (Recaptcha (New ''key'') example_RecaptchaTask True (canned (Response 200 (Some (error_body 1 ''KEY_INVALID'' ''bad key'')))))) ''KEY_INVALID''
   \<and> Turnstile (New ''key'') example_TurnstileTask (canned (Response 200 (Some (taskId_body ''abc123'')))) = (''abc123'', None)
   \<and> message_contains (snd (Turnstile (New ''key'') example_TurnstileTask (canned (Response 200 (Some (error_body 1 ''KEY_INVALID'' ''bad key'')))))) ''bad key''
   \<and> message_contains (snd (Turnstile (New ''key'') example_TurnstileTask (canned (Response 200 (Some (error_body 1 ''KEY_INVALID'' ''bad key'')))))) ''KEY_INVALID''
   \<and> FunCaptcha (New ''key'') example_FunCaptchaTask (canned (Response 200 (Some (taskId_body ''abc123'')))) = (''abc123'', None)
   \<and> message_contains (snd (FunCaptcha (New ''key'') example_FunCaptchaTask (canned (Response 200 (Some (error_body 1 ''KEY_INVALID'' ''bad key'')))))) ''bad key''
   \<and> message_contains (snd (FunCaptcha (New ''key'') example_FunCaptchaTask (canned (Response 200 (Some (error_body 1 ''KEY_INVALID'' ''bad key'')))))) ''KEY_INVALID''
   \<and> ImageToText (New ''key'') example_TaskBase (canned (Response 200 (Some (taskId_body ''abc123'')))) = (''abc123'', None)
   \<and> message_contains (snd (ImageToText (New ''key'') example_TaskBase (canned (Response 200 (Some (error_body 1 ''KEY_INVALID'' ''bad key'')))))) ''bad key''
   \<and> message_contains (snd (ImageToText (New ''key'') example_TaskBase (canned (Response 200 (Some (error_body 1 ''KEY_INVALID'' ''bad key'')))))) ''KEY_INVALID''"
  using
    create_task_returns_taskId_or_error [where rt = "canned (Response 200 (Some (taskId_body ''abc123'')))"
      and c = "New ''key''" and h = example_HCaptchaTask and r = example_RecaptchaTask and v3flag = True
      and t = example_TurnstileTask and f = example_FunCaptchaTask and i = example_TaskBase]
    create_task_returns_taskId_or_error [where rt = "canned (Response 200 (Some (error_body 1 ''KEY_INVALID'' ''bad key'')))"
      and j = "error_body 1 ''KEY_INVALID'' ''bad key''"
      and e = "\<lparr>ErrorId = 1, ErrorCode = ''KEY_INVALID'', ErrorDescription = ''bad key''\<rparr>"
      and c = "New ''key''" and h = example_HCaptchaTask and r = example_RecaptchaTask and v3flag = True
      and t = example_TurnstileTask and f = example_FunCaptchaTask and i = example_TaskBase]
  by (simp add: canned_examples error_response_error_body)

text \<open>
  C5. When a request is answered with a status other than 200, every method returns the
  validator's error as it got it from \<open>Fetch\<close>, along with the zero value; the body is not
  decoded, so the result is the same whatever the body holds.
\<close>

theorem other_status_is_returned_as_error:
  "st \<noteq> 200 \<longrightarrow>
     (answers rt createTaskURL (HCaptcha_request c h) (Response st body)
        \<longrightarrow> HCaptcha c h rt = ([], Some (ErrValidator st)))
     \<and> (answers rt createTaskURL (Recaptcha_request c r v3flag) (Response st body)
        \<longrightarrow> Recaptcha c r v3flag rt = ([], Some (ErrValidator st)))
     \<and> (answers rt createTaskURL (Turnstile_request c t) (Response st body)
        \<longrightarrow> Turnstile c t rt = ([], Some (ErrValidator st)))
     \<and> (answers rt createTaskURL (FunCaptcha_request c f) (Response st body)
        \<longrightarrow> FunCaptcha c f rt = ([], Some (ErrValidator st)))
     \<and> (answers rt createTaskURL (ImageToText_request c i) (Response st body)
        \<longrightarrow> ImageToText c i rt = ([], Some (ErrValidator st)))
     \<and> (answers rt getTaskResultURL (GetResult_request c taskID) (Response st body)
        \<longrightarrow> GetResult c taskID rt = (zero_TaskResult, Some (ErrValidator st)))"
  by (simp add: method_defs createTask_not_200 GetResult_not_200)

theorem other_status_is_returned_as_error_witness:
  "HCaptcha (New ''key'') example_HCaptchaTask (canned (Response 500 (Some (error_body 1 ''KEY_INVALID'' ''bad key'')))) = ([], Some (ErrValidator 500))
   \<and> Recaptcha (New ''key'') example_RecaptchaTask True (canned (Response 500 (Some (error_body 1 ''KEY_INVALID'' ''bad key'')))) = ([], Some (ErrValidator 500))
   \<and> Turnstile (New ''key'') example_TurnstileTask (canned (Response 500 (Some (error_body 1 ''KEY_INVALID'' ''bad key'')))) = ([], Some (ErrValidator 500))
   \<and> FunCaptcha (New ''key'') example_FunCaptchaTask (canned (Response 500 (Some (error_body 1 ''KEY_INVALID'' ''bad key'')))) = ([], Some (ErrValidator 500))
   \<and> ImageToText (New ''key'') example_TaskBase (canned (Response 500 (Some (error_body 1 ''KEY_INVALID'' ''bad key'')))) = ([], Some (ErrValidator 500))
   \<and> GetResult (New ''key'') ''abc123'' (canned (Response 500 (Some (error_body 1 ''KEY_INVALID'' ''bad key'')))) = (zero_TaskResult, Some (ErrValidator 500))"
  using
    other_status_is_returned_as_error [where st = 500 and rt = "canned (Response 500 (Some (error_body 1 ''KEY_INVALID'' ''bad key'')))"
      and body = "Some (error_body 1 ''KEY_INVALID'' ''bad key'')" and taskID = "''abc123''"
      and c = "New ''key''" and h = example_HCaptchaTask and r = example_RecaptchaTask and v3flag = True
      and t = example_TurnstileTask and f = example_FunCaptchaTask and i = example_TaskBase]
  by (simp add: canned_examples)

text \<open>
  C2, as the code has it. When a request is answered with status 200 and a body that decodes
  with a non-null error object, the method returns the zero value and the error
  \<open>vastcap error: <errorDescription> (<errorCode>)\<close>, made by \<open>fmt.Errorf\<close>; its text
  contains the description and the code. The error holds that text only: \<open>errorId\<close> is decoded
  and then dropped.
\<close>

theorem api_error_is_returned_as_message:
  "(answers rt createTaskURL (HCaptcha_request c h) (Response 200 (Some j)) \<and> error_response j e
      \<longrightarrow> HCaptcha c h rt = ([], Some (Errorf (''vastcap error: '' @ ErrorDescription e @ '' ('' @ ErrorCode e @ '')''))))
   \<and> (answers rt createTaskURL (Recaptcha_request c r v3flag) (Response 200 (Some j)) \<and> error_response j e
      \<longrightarrow> Recaptcha c r v3flag rt = ([], Some (Errorf (''vastcap error: '' @ ErrorDescription e @ '' ('' @ ErrorCode e @ '')''))))
   \<and> (answers rt createTaskURL (Turnstile_request c t) (Response 200 (Some j)) \<and> error_response j e
      \<longrightarrow> Turnstile c t rt = ([], Some (Errorf (''vastcap error: '' @ ErrorDescription e @ '' ('' @ ErrorCode e @ '')''))))
   \<and> (answers rt createTaskURL (FunCaptcha_request c f) (Response 200 (Some j)) \<and> error_response j e
      \<longrightarrow> FunCaptcha c f rt = ([], Some (Errorf (''vastcap error: '' @ ErrorDescription e @ '' ('' @ ErrorCode e @ '')''))))
   \<and> (answers rt createTaskURL (ImageToText_request c i) (Response 200 (Some j)) \<and> error_response j e
      \<longrightarrow> ImageToText c i rt = ([], Some (Errorf (''vastcap error: '' @ ErrorDescription e @ '' ('' @ ErrorCode e @ '')''))))
   \<and> (answers rt getTaskResultURL (GetResult_request c taskID) (Response 200 (Some j))
        \<and> failed_result j e
      \<longrightarrow> GetResult c taskID rt = (zero_TaskResult, Some (Errorf (''vastcap error: '' @ ErrorDescription e @ '' ('' @ ErrorCode e @ '')''))))
   \<and> message_contains (Some (Errorf (''vastcap error: '' @ ErrorDescription e @ '' ('' @ ErrorCode e @ '')''))) (ErrorDescription e)
   \<and> message_contains (Some (Errorf (''vastcap error: '' @ ErrorDescription e @ '' ('' @ ErrorCode e @ '')''))) (ErrorCode e)"
  using vastcap_error_contains [of e]
  by (auto simp add: method_defs createTask_error GetResult_failed vastcap_error_def)

theorem api_error_is_returned_as_message_witness:
  "HCaptcha (New ''key'') example_HCaptchaTask (canned (Response 200 (Some (error_body 1 ''KEY_INVALID'' ''bad key'')))) = ([], Some (Errorf ''vastcap error: bad key (KEY_INVALID)''))
   \<and> Recaptcha (New ''key'') example_RecaptchaTask True (canned (Response 200 (Some (error_body 1 ''KEY_INVALID'' ''bad key'')))) = ([], Some (Errorf ''vastcap error: bad key (KEY_INVALID)''))
   \<and> Turnstile (New ''key'') example_TurnstileTask (canned (Response 200 (Some (error_body 1 ''KEY_INVALID'' ''bad key'')))) = ([], Some (Errorf ''vastcap error: bad key (KEY_INVALID)''))
   \<and> FunCaptcha (New ''key'') example_FunCaptchaTask (canned (Response 200 (Some (error_body 1 ''KEY_INVALID'' ''bad key'')))) = ([], Some (Errorf ''vastcap error: bad key (KEY_INVALID)''))
   \<and> ImageToText (New ''key'') example_TaskBase (canned (Response 200 (Some (error_body 1 ''KEY_INVALID'' ''bad key'')))) = ([], Some (Errorf ''vastcap error: bad key (KEY_INVALID)''))
   \<and> GetResult (New ''key'') ''abc123'' (canned (Response 200 (Some (failed_body 1 ''KEY_INVALID'' ''bad key''))))
       = (zero_TaskResult, Some (Errorf ''vastcap error: bad key (KEY_INVALID)''))"
  using
    api_error_is_returned_as_message [where rt = "canned (Response 200 (Some (error_body 1 ''KEY_INVALID'' ''bad key'')))"
      and j = "error_body 1 ''KEY_INVALID'' ''bad key''"
      and e = "\<lparr>ErrorId = 1, ErrorCode = ''KEY_INVALID'', ErrorDescription = ''bad key''\<rparr>"
      and c = "New ''key''" and h = example_HCaptchaTask and r = example_RecaptchaTask and v3flag = True
      and t = example_TurnstileTask and f = example_FunCaptchaTask and i = example_TaskBase]
    api_error_is_returned_as_message [where rt = "canned (Response 200 (Some (failed_body 1 ''KEY_INVALID'' ''bad key'')))"
      and j = "failed_body 1 ''KEY_INVALID'' ''bad key''" and taskID = "''abc123''"
      and e = "\<lparr>ErrorId = 1, ErrorCode = ''KEY_INVALID'', ErrorDescription = ''bad key''\<rparr>"
      and c = "New ''key''"]
  by (simp add: canned_examples error_response_error_body failed_result_failed_body)

text \<open>
  C2 as stated fails: two responses that differ in \<open>errorId\<close> only, 1 and 2, give the caller
  the very same values, from a create-task method and from \<open>GetResult\<close> alike, so the numeric
  id cannot be read off what is returned.
\<close>

theorem errorId_is_not_returned:
  "HCaptcha (New ''key'') example_HCaptchaTask
      (canned (Response 200 (Some (error_body 1 ''KEY_INVALID'' ''bad key''))))
     = ([], Some (Errorf ''vastcap error: bad key (KEY_INVALID)''))
   \<and> HCaptcha (New ''key'') example_HCaptchaTask
      (canned (Response 200 (Some (error_body 2 ''KEY_INVALID'' ''bad key''))))
     = ([], Some (Errorf ''vastcap error: bad key (KEY_INVALID)''))
   \<and> GetResult (New ''key'') ''abc123''
      (canned (Response 200 (Some (failed_body 1 ''KEY_INVALID'' ''bad key''))))
     = (zero_TaskResult, Some (Errorf ''vastcap error: bad key (KEY_INVALID)''))
   \<and> GetResult (New ''key'') ''abc123''
      (canned (Response 200 (Some (failed_body 2 ''KEY_INVALID'' ''bad key''))))
     = (zero_TaskResult, Some (Errorf ''vastcap error: bad key (KEY_INVALID)''))"
  by (simp add: HCaptcha_def createTask_error [OF canned_examples(1) error_response_error_body(1)]
        createTask_error [OF canned_examples(1) error_response_error_body(2)]
        GetResult_failed [OF canned_examples(6) failed_result_failed_body(1)]
        GetResult_failed [OF canned_examples(6) failed_result_failed_body(2)]
        vastcap_error_def)

text \<open>
  C6. \<open>GetResult\<close>, answered with status 200 and \<open>{"status": "processing"}\<close>, returns a
  result with that status and neither solution nor error; answered with
  \<open>{"status": "ready", "solution": {"hCaptchaResponse": "tok"}}\<close>, it returns a result whose
  solution has \<open>tok\<close> as its \<open>HCaptchaResponse\<close> (and nothing else set).
\<close>

theorem GetResult_processing_and_ready:
  "(answers rt getTaskResultURL (GetResult_request c taskID)
        (Response 200 (Some (JObject [(''status'', JString ''processing'')])))
      \<longrightarrow> GetResult c taskID rt =
            (\<lparr>Status = ''processing'', Solution = None, Error = None\<rparr>, None))
   \<and> (answers rt getTaskResultURL (GetResult_request c taskID)
        (Response 200 (Some (JObject [(''status'', JString ''ready''),
          (''solution'', JObject [(''hCaptchaResponse'', JString ''tok'')])])))
      \<longrightarrow> GetResult c taskID rt =
            (\<lparr>Status = ''ready'',
              Solution = Some (zero_taskSolution\<lparr>HCaptchaResponse := Some ''tok''\<rparr>),
              Error = None\<rparr>, None))"
  by (simp add: GetResult_def Fetch_200 zero_TaskResult_def zero_taskSolution_def
        selects_response)

theorem GetResult_processing_and_ready_witness:
  "GetResult (New ''key'') ''abc123'' (canned (Response 200 (Some (JObject [(''status'', JString ''processing'')]))))
     = (\<lparr>Status = ''processing'', Solution = None, Error = None\<rparr>, None)
   \<and> (case Solution (fst (GetResult (New ''key'') ''abc123''
        (canned (Response 200 (Some (JObject [(''status'', JString ''ready''),
          (''solution'', JObject [(''hCaptchaResponse'', JString ''tok'')])])))))) of
        None \<Rightarrow> False | Some s \<Rightarrow> HCaptchaResponse s = Some ''tok'')"
  using
    GetResult_processing_and_ready [where c = "New ''key''" and taskID = "''abc123''"
      and rt = "canned (Response 200 (Some (JObject [(''status'', JString ''processing'')])))"]
    GetResult_processing_and_ready [where c = "New ''key''" and taskID = "''abc123''"
      and rt = "canned (Response 200 (Some (JObject [(''status'', JString ''ready''),
          (''solution'', JObject [(''hCaptchaResponse'', JString ''tok'')])])))"]
  by (simp add: canned_examples)

text \<open>
  C10. The \<open>TaskResult\<close> that \<open>GetResult\<close> returns never has its \<open>Error\<close> set, whatever comes
  back; when the response decodes with a non-null error object, \<open>GetResult\<close> returns the
  zero \<open>TaskResult\<close> and a Go error instead.
\<close>

theorem GetResult_never_returns_Error_field:
  "Error (fst (GetResult c taskID rt)) = None
   \<and> (answers rt getTaskResultURL (GetResult_request c taskID) (Response 200 (Some j))
        \<and> failed_result j e
      \<longrightarrow> GetResult c taskID rt = (zero_TaskResult, Some (vastcap_error e)))"
proof
  show "Error (fst (GetResult c taskID rt)) = None"
    by (simp add: GetResult_def zero_TaskResult_def split: sum.splits option.splits)
  show "answers rt getTaskResultURL (GetResult_request c taskID) (Response 200 (Some j))
        \<and> failed_result j e
      \<longrightarrow> GetResult c taskID rt = (zero_TaskResult, Some (vastcap_error e))"
    by (blast intro: GetResult_failed)
qed

theorem GetResult_never_returns_Error_field_witness:
  "GetResult (New ''key'') ''abc123''
      (canned (Response 200 (Some (failed_body 1 ''KEY_INVALID'' ''bad key''))))
     = (zero_TaskResult,
        Some (vastcap_error \<lparr>ErrorId = 1, ErrorCode = ''KEY_INVALID'',
                ErrorDescription = ''bad key''\<rparr>))
   \<and> Error (fst (GetResult (New ''key'') ''abc123''
      (canned (Response 200 (Some (failed_body 1 ''KEY_INVALID'' ''bad key'')))))) = None"
  using
    GetResult_never_returns_Error_field [where c = "New ''key''" and taskID = "''abc123''"
      and rt = "canned (Response 200 (Some (failed_body 1 ''KEY_INVALID'' ''bad key'')))"
      and j = "failed_body 1 ''KEY_INVALID'' ''bad key''"
      and e = "\<lparr>ErrorId = 1, ErrorCode = ''KEY_INVALID'', ErrorDescription = ''bad key''\<rparr>"]
  by (simp add: canned_examples failed_result_failed_body zero_TaskResult_def)


section \<open>What a call leaves of the store\<close>

lemmas call_defs = HCaptcha_call_def Recaptcha_call_def Turnstile_call_def
  FunCaptcha_call_def ImageToText_call_def GetResult_call_def

lemma take_assign_new: "take (length s) (assign (length s) f (s @ [v])) = s"
  by (simp add: assign_def)

lemma assign_new: "assign (length s) f (s @ [v]) = s @ [f v]"
  by (simp add: assign_def)

lemma load_new: "load (s @ [v]) (length s) = Some v"
  by (simp add: load_def)

lemma deref_client_old:
  "load s p = Some (ClientCell cl) \<Longrightarrow> deref_client (Some p) (s @ [v]) = Some cl"
  by (auto simp add: deref_client_def load_def nth_append split: if_splits)

text \<open>
  C9. No call changes a variable that was there before it: for every method, every receiver
  (nil and dangling ones too), argument, endpoint and store, the store after the call
  starts with the store before it, so the client's \<open>APIKey\<close> and whatever task value the
  caller holds are what they were. With a receiver that points to a client, the call
  returns what the method returns on that client and the argument, and all it adds to the
  store is its own parameter: for a create-task method, the copy of the argument on which
  \<open>Type\<close> was set.
\<close>

theorem calls_leave_the_store:
  "take (length s) (snd (HCaptcha_call c h rt s)) = s
   \<and> take (length s) (snd (Recaptcha_call c r v3flag rt s)) = s
   \<and> take (length s) (snd (Turnstile_call c t rt s)) = s
   \<and> take (length s) (snd (FunCaptcha_call c f rt s)) = s
   \<and> take (length s) (snd (ImageToText_call c i rt s)) = s
   \<and> take (length s) (snd (GetResult_call c taskID rt s)) = s
   \<and> (load s p = Some (ClientCell cl) \<longrightarrow>
        HCaptcha_call (Some p) h rt s =
          (Some (HCaptcha cl h rt), s @ [HCaptchaCell (h\<lparr>Type := ''HCaptchaTask''\<rparr>)])
      \<and> Recaptcha_call (Some p) r v3flag rt s =
          (Some (Recaptcha cl r v3flag rt),
           s @ [RecaptchaCell (r\<lparr>Type := if v3flag then ''RecaptchaV3Task'' else ''RecaptchaV2Task''\<rparr>)])
      \<and> Turnstile_call (Some p) t rt s =
          (Some (Turnstile cl t rt), s @ [TurnstileCell (t\<lparr>Type := ''TurnstileTask''\<rparr>)])
      \<and> FunCaptcha_call (Some p) f rt s =
          (Some (FunCaptcha cl f rt), s @ [FunCaptchaCell (f\<lparr>Type := ''FunCaptchaTask''\<rparr>)])
      \<and> ImageToText_call (Some p) i rt s =
          (Some (ImageToText cl i rt), s @ [TaskBaseCell (i\<lparr>Type := ''ImageToTextTask''\<rparr>)])
      \<and> GetResult_call (Some p) taskID rt s =
          (Some (GetResult cl taskID rt), s @ [StringCell taskID]))"
proof -
  have frame:
    "take (length s) (snd (HCaptcha_call c h rt s)) = s"
    "take (length s) (snd (Recaptcha_call c r v3flag rt s)) = s"
    "take (length s) (snd (Turnstile_call c t rt s)) = s"
    "take (length s) (snd (FunCaptcha_call c f rt s)) = s"
    "take (length s) (snd (ImageToText_call c i rt s)) = s"
    "take (length s) (snd (GetResult_call c taskID rt s)) = s"
    by (simp_all add: call_defs alloc_def assign_new load_new Let_def
          split: option.splits cell.splits)
  have calls: "HCaptcha_call (Some p) h rt s =
          (Some (HCaptcha cl h rt), s @ [HCaptchaCell (h\<lparr>Type := ''HCaptchaTask''\<rparr>)])"
      "Recaptcha_call (Some p) r v3flag rt s =
          (Some (Recaptcha cl r v3flag rt),
           s @ [RecaptchaCell (r\<lparr>Type := if v3flag then ''RecaptchaV3Task'' else ''RecaptchaV2Task''\<rparr>)])"
      "Turnstile_call (Some p) t rt s =
          (Some (Turnstile cl t rt), s @ [TurnstileCell (t\<lparr>Type := ''TurnstileTask''\<rparr>)])"
      "FunCaptcha_call (Some p) f rt s =
          (Some (FunCaptcha cl f rt), s @ [FunCaptchaCell (f\<lparr>Type := ''FunCaptchaTask''\<rparr>)])"
      "ImageToText_call (Some p) i rt s =
          (Some (ImageToText cl i rt), s @ [TaskBaseCell (i\<lparr>Type := ''ImageToTextTask''\<rparr>)])"
      "GetResult_call (Some p) taskID rt s =
          (Some (GetResult cl taskID rt), s @ [StringCell taskID])"
    if "load s p = Some (ClientCell cl)"
    using that
    by (simp_all add: call_defs alloc_def assign_new load_new deref_client_old
          method_defs request_defs GetResult_def Let_def)
  show ?thesis
    using frame calls by blast
qed

theorem calls_leave_the_store_witness:
  "HCaptcha_call (Some 0) (example_HCaptchaTask\<lparr>Type := ''mine''\<rparr>)
      (canned (Response 200 (Some (taskId_body ''abc123'')))) example_store
     = (Some (''abc123'', None),
        [ClientCell (New ''key''), HCaptchaCell (example_HCaptchaTask\<lparr>Type := ''mine''\<rparr>),
         HCaptchaCell (example_HCaptchaTask\<lparr>Type := ''HCaptchaTask''\<rparr>)])"
proof -
  have client: "load example_store 0 = Some (ClientCell (New ''key''))"
    by (simp add: example_store_def load_def)
  have returned: "HCaptcha (New ''key'') (example_HCaptchaTask\<lparr>Type := ''mine''\<rparr>)
      (canned (Response 200 (Some (taskId_body ''abc123'')))) = (''abc123'', None)"
    by (simp add: HCaptcha_def createTask_taskId answers_canned HCaptcha_request_def
          BodyJSON_def marshal_HCaptchaTask_def)
  show ?thesis
    using client returned
      calls_leave_the_store [where p = 0 and cl = "New ''key''" and s = example_store
        and h = "example_HCaptchaTask\<lparr>Type := ''mine''\<rparr>"
        and rt = "canned (Response 200 (Some (taskId_body ''abc123'')))"]
    by (simp add: example_store_def)
qed

end
